theory Spec2Isabelle
  imports
    Complex_Main
    "HOL-Library.Char_ord"
    "HOL-Library.List_Lexorder"
    "HOL-Library.Product_Lexorder"
    "HOL-Library.Multiset"
begin

section \<open>SQL values shared by all stages\<close>

text \<open>
  The pipeline is a sequence of DuckDB statements, each building one table from the
  previous ones.  A table is a list of rows (a bag in storage order), a nullable column
  is an \<open>option\<close> with \<open>None\<close> for SQL NULL, a DOUBLE column is a \<open>real\<close>, a
  TIMESTAMP is the number of seconds since 1970-01-01 00:00 UTC and a DATE is the number
  of days since 1970-01-01.
\<close>

type_synonym timestamp = int
type_synonym date = int

text \<open>\<open>date_trunc('day', ts)\<close>: the timestamp of the midnight that starts the day of \<open>ts\<close>.\<close>

definition date_trunc_day :: "timestamp \<Rightarrow> timestamp" where
  "date_trunc_day ts = (ts div 86400) * 86400"

text \<open>\<open>date_trunc('hour', ts)\<close>.\<close>

definition date_trunc_hour :: "timestamp \<Rightarrow> timestamp" where
  "date_trunc_hour ts = (ts div 3600) * 3600"

text \<open>\<open>CAST(ts AS DATE)\<close>.\<close>

definition cast_date :: "timestamp \<Rightarrow> date" where
  "cast_date ts = ts div 86400"

text \<open>\<open>epoch(d)\<close> of a DATE: the seconds since the epoch of its midnight.\<close>

definition epoch :: "date \<Rightarrow> int" where
  "epoch d = d * 86400"

text \<open>
  The aggregates \<open>MAX\<close>, \<open>SUM\<close> and \<open>AVG\<close> skip NULL inputs and are NULL when no
  non-NULL input is left.
\<close>

definition non_null :: "'a option list \<Rightarrow> 'a list" where
  "non_null vs = map the (filter (\<lambda>v. v \<noteq> None) vs)"

definition sql_max :: "real option list \<Rightarrow> real option" where
  "sql_max vs = (case non_null vs of [] \<Rightarrow> None | x # xs \<Rightarrow> Some (fold max xs x))"

definition sql_sum :: "real option list \<Rightarrow> real option" where
  "sql_sum vs = (case non_null vs of [] \<Rightarrow> None | x # xs \<Rightarrow> Some (sum_list (x # xs)))"

definition sql_avg :: "real option list \<Rightarrow> real option" where
  "sql_avg vs = (case non_null vs of [] \<Rightarrow> None
                 | x # xs \<Rightarrow> Some (sum_list (x # xs) / real (length (x # xs))))"

section \<open>noaa\_ingest.py: cleaning the raw TMP field\<close>

text \<open>
  \<open>split_part(TMP, ',', 1)\<close>: the text before the first comma (the whole text when it
  has none).
\<close>

definition split_part_1 :: "string \<Rightarrow> string" where
  "split_part_1 s = takeWhile (\<lambda>c. c \<noteq> CHR '','') s"

definition is_digit :: "char \<Rightarrow> bool" where
  "is_digit c = (c \<in> set ''0123456789'')"

definition digit_val :: "char \<Rightarrow> int" where
  "digit_val c = int (of_char c) - 48"

definition digits_val :: "string \<Rightarrow> int" where
  "digits_val ds = foldl (\<lambda>acc c. 10 * acc + digit_val c) 0 ds"

text \<open>
  \<open>TRY_CAST(s AS INTEGER)\<close> on the texts the TMP field holds: an optional sign and
  decimal digits give the 32-bit integer they denote, every other text gives NULL.
\<close>

definition try_cast_integer :: "string \<Rightarrow> int option" where
  "try_cast_integer s =
     (let (neg, ds) = (case s of
                         c # r \<Rightarrow> if c = CHR ''-'' then (True, r)
                                  else if c = CHR ''+'' then (False, r)
                                  else (False, s)
                       | [] \<Rightarrow> (False, s))
      in if ds = [] \<or> \<not> list_all is_digit ds then None
         else (let v = (if neg then - digits_val ds else digits_val ds)
               in if - 2147483648 \<le> v \<and> v \<le> 2147483647 then Some v else None))"

text \<open>
  The \<open>temp_C\<close> column of \<open>noaa_hourly_temp\<close> in \<open>load_noaa_hourly\<close>:
  \<^verbatim>\<open>CASE WHEN split_part(TMP, ',', 1) = '+9999' THEN NULL
       ELSE TRY_CAST(split_part(TMP, ',', 1) AS INTEGER) / 10.0 END\<close>
\<close>

definition clean_temp_C :: "string \<Rightarrow> real option" where
  "clean_temp_C TMP =
     (if split_part_1 TMP = ''+9999'' then None
      else map_option (\<lambda>i. real_of_int i / 10) (try_cast_integer (split_part_1 TMP)))"

section \<open>noaa\_ingest.py: the hourly average table\<close>

record noaa_hourly_temp_row =
  t_station :: string
  t_ts_utc :: timestamp
  t_temp_C :: "real option"

record noaa_hourly_avg_row =
  h_station :: string
  h_hour_utc :: timestamp
  h_temp_C :: "real option"

text \<open>
  \<open>GROUP BY k ORDER BY k\<close>: one group for each distinct key of the input, the groups in
  ascending key order.
\<close>

definition group_keys :: "('r \<Rightarrow> 'k::linorder) \<Rightarrow> 'r list \<Rightarrow> 'k list" where
  "group_keys key rows = sort (remdups (map key rows))"

text \<open>
  \<open>build_noaa_hourly_avg\<close>:
  \<^verbatim>\<open>SELECT station, date_trunc('hour', ts_utc) AS hour_utc, AVG(temp_C) AS temp_C
  FROM noaa_hourly_temp GROUP BY station, hour_utc ORDER BY station, hour_utc\<close>
\<close>

definition build_noaa_hourly_avg :: "noaa_hourly_temp_row list \<Rightarrow> noaa_hourly_avg_row list" where
  "build_noaa_hourly_avg T =
     map (\<lambda>k. \<lparr>h_station = fst k, h_hour_utc = snd k,
               h_temp_C = sql_avg (map t_temp_C
                 (filter (\<lambda>r. (t_station r, date_trunc_hour (t_ts_utc r)) = k) T))\<rparr>)
         (group_keys (\<lambda>r. (t_station r, date_trunc_hour (t_ts_utc r))) T)"

section \<open>processing.py: build\_noaa\_daily\<close>

record noaa_daily_temp_row =
  station :: string
  day_utc :: timestamp
  daily_max_temp_C :: "real option"
  avg_temp_C :: "real option"

text \<open>
  \<^verbatim>\<open>SELECT station, DATE_TRUNC('day', hour_utc) AS day_utc,
         MAX(temp_C) AS daily_max_temp_C, AVG(temp_C) AS avg_temp_C
  FROM noaa_hourly_avg GROUP BY station, day_utc ORDER BY station, day_utc\<close>
\<close>

definition hourly_day_key :: "noaa_hourly_avg_row \<Rightarrow> string \<times> timestamp" where
  "hourly_day_key r = (h_station r, date_trunc_day (h_hour_utc r))"

definition build_noaa_daily :: "noaa_hourly_avg_row list \<Rightarrow> noaa_daily_temp_row list" where
  "build_noaa_daily H =
     map (\<lambda>k. \<lparr>station = fst k, day_utc = snd k,
               daily_max_temp_C = sql_max (map h_temp_C (filter (\<lambda>r. hourly_day_key r = k) H)),
               avg_temp_C = sql_avg (map h_temp_C (filter (\<lambda>r. hourly_day_key r = k) H))\<rparr>)
         (group_keys hourly_day_key H)"

section \<open>processing.py: build\_noaa\_heatwave\_flags\<close>

text \<open>
  A comparison with a NULL operand is NULL, and \<open>CASE WHEN c THEN t ELSE e END\<close> takes
  the \<open>ELSE\<close> branch unless \<open>c\<close> is true.
\<close>

definition sql_ge :: "real option \<Rightarrow> real \<Rightarrow> bool option" where
  "sql_ge v c = map_option (\<lambda>x. c \<le> x) v"

definition case_when :: "bool option \<Rightarrow> 'a \<Rightarrow> 'a \<Rightarrow> 'a" where
  "case_when c t e = (if c = Some True then t else e)"

text \<open>The CTE \<open>base\<close>: every daily row with its hot-day flag and its calendar date.\<close>

record base_row =
  b_station :: string
  b_day_utc :: timestamp
  b_daily_max_temp_C :: "real option"
  b_avg_temp_C :: "real option"
  b_is_hot_day :: int
  b_day_date :: date

definition base :: "noaa_daily_temp_row list \<Rightarrow> base_row list" where
  "base T =
     map (\<lambda>r. \<lparr>b_station = station r, b_day_utc = day_utc r,
               b_daily_max_temp_C = daily_max_temp_C r, b_avg_temp_C = avg_temp_C r,
               b_is_hot_day = case_when (sql_ge (daily_max_temp_C r) 32.22) 1 0,
               b_day_date = cast_date (day_utc r)\<rparr>) T"

text \<open>
  The CTE \<open>hot_days\<close>: the hot rows, numbered from 1 inside each station in date order
  (\<open>ROW_NUMBER() OVER (PARTITION BY station ORDER BY day_date)\<close>).  The column
  \<open>thedate\<close> repeats \<open>day_date\<close> and is read nowhere.
\<close>

record hot_days_row =
  hd_station :: string
  hd_day_date :: date
  hd_rn :: int

definition number_partition :: "base_row list \<Rightarrow> hot_days_row list" where
  "number_partition part =
     map (\<lambda>(b, n). \<lparr>hd_station = b_station b, hd_day_date = b_day_date b, hd_rn = n\<rparr>)
         (zip (sort_key b_day_date part) [1 .. int (length part)])"

definition hot_days :: "base_row list \<Rightarrow> hot_days_row list" where
  "hot_days B =
     (let hot = filter (\<lambda>b. b_is_hot_day b = 1) B
      in concat (map (\<lambda>s. number_partition (filter (\<lambda>b. b_station b = s) hot))
                     (remdups (map b_station hot))))"

text \<open>
  The CTE \<open>hot_grouped\<close>:
  \<open>grp_id = CAST(epoch(day_date) / 86400 AS BIGINT) - rn\<close>.  The quotient is exact,
  \<open>epoch\<close> of a date being a multiple of 86400.
\<close>

record hot_grouped_row =
  hg_station :: string
  hg_day_date :: date
  hg_rn :: int
  hg_grp_id :: int

definition hot_grouped :: "hot_days_row list \<Rightarrow> hot_grouped_row list" where
  "hot_grouped HD =
     map (\<lambda>h. \<lparr>hg_station = hd_station h, hg_day_date = hd_day_date h, hg_rn = hd_rn h,
               hg_grp_id = epoch (hd_day_date h) div 86400 - hd_rn h\<rparr>) HD"

text \<open>
  The CTE \<open>heatwave_groups\<close>:
  \<open>SELECT station, grp_id FROM hot_grouped GROUP BY station, grp_id HAVING COUNT(*) >= 3\<close>.
\<close>

definition hg_key :: "hot_grouped_row \<Rightarrow> string \<times> int" where
  "hg_key g = (hg_station g, hg_grp_id g)"

definition heatwave_groups :: "hot_grouped_row list \<Rightarrow> (string \<times> int) list" where
  "heatwave_groups G =
     filter (\<lambda>k. 3 \<le> length (filter (\<lambda>g. hg_key g = k) G)) (remdups (map hg_key G))"

text \<open>
  The CTE \<open>heatwave_days\<close>: the inner join of \<open>hot_grouped\<close> with \<open>heatwave_groups\<close>
  on station and \<open>grp_id\<close>, projected to (station, day\_date).
\<close>

definition heatwave_days :: "hot_grouped_row list \<Rightarrow> (string \<times> int) list \<Rightarrow> (string \<times> date) list" where
  "heatwave_days G WG =
     concat (map (\<lambda>h. map (\<lambda>g. (hg_station h, hg_day_date h))
                           (filter (\<lambda>g. hg_station h = fst g \<and> hg_grp_id h = snd g) WG)) G)"

text \<open>
  The final \<open>SELECT\<close>: \<open>base\<close> left-joined with \<open>heatwave_days\<close> on station and date
  (a row of \<open>base\<close> with no partner is kept once, with NULL for \<open>hd.day_date\<close>), and
  \<open>is_heatwave_day = CASE WHEN hd.day_date IS NOT NULL THEN 1 ELSE 0 END\<close>, ordered by
  station and \<open>day_utc\<close>.
\<close>

record noaa_heatwave_flags_row = noaa_daily_temp_row +
  is_hot_day :: int
  is_heatwave_day :: int

definition left_join :: "('a \<Rightarrow> 'b \<Rightarrow> bool) \<Rightarrow> 'a list \<Rightarrow> 'b list \<Rightarrow> ('a \<times> 'b option) list" where
  "left_join on_cond A B =
     concat (map (\<lambda>a. case filter (on_cond a) B of
                         [] \<Rightarrow> [(a, None)]
                       | m # ms \<Rightarrow> map (\<lambda>b. (a, Some b)) (m # ms)) A)"

definition flag_row :: "base_row \<times> (string \<times> date) option \<Rightarrow> noaa_heatwave_flags_row" where
  "flag_row p =
     (case p of (b, w) \<Rightarrow>
        \<lparr>station = b_station b, day_utc = b_day_utc b,
         daily_max_temp_C = b_daily_max_temp_C b, avg_temp_C = b_avg_temp_C b,
         is_hot_day = b_is_hot_day b,
         is_heatwave_day = (if map_option snd w \<noteq> None then 1 else 0)\<rparr>)"

definition build_noaa_heatwave_flags :: "noaa_daily_temp_row list \<Rightarrow> noaa_heatwave_flags_row list" where
  "build_noaa_heatwave_flags T =
     (let B = base T;
          G = hot_grouped (hot_days B);
          HD = heatwave_days G (heatwave_groups G)
      in sort_key (\<lambda>r. (station r, day_utc r))
           (map flag_row
              (left_join (\<lambda>b w. b_station b = fst w \<and> cast_date (b_day_utc b) = snd w) B HD)))"

section \<open>eia\_ingest.py: the hourly load table\<close>


record eia_load_hourly_row =
  l_region :: string
  l_hour_utc :: timestamp
  l_load_mwh :: "real option"






section \<open>processing.py: build\_eia\_daily\_load\<close>

record eia_daily_load_row =
  e_region :: string
  e_day_utc :: timestamp
  e_daily_total_mwh :: "real option"
  e_daily_peak_mwh :: "real option"

text \<open>
  The CTE \<open>hourly_unique\<close>: \<open>SELECT DISTINCT region, hour_utc, load_mwh\<close>, which keeps
  one copy of every row that occurs, rows being equal when all three columns are.
\<close>

definition hourly_unique :: "eia_load_hourly_row list \<Rightarrow> eia_load_hourly_row list" where
  "hourly_unique L = remdups L"

definition load_day_key :: "eia_load_hourly_row \<Rightarrow> string \<times> timestamp" where
  "load_day_key r = (l_region r, date_trunc_day (l_hour_utc r))"

text \<open>
  \<^verbatim>\<open>SELECT region, date_trunc('day', hour_utc) AS day_utc,
         SUM(load_mwh) AS daily_total_mwh, MAX(load_mwh) AS daily_peak_mwh
  FROM hourly_unique GROUP BY region, day_utc ORDER BY region, day_utc\<close>
\<close>

definition build_eia_daily_load :: "eia_load_hourly_row list \<Rightarrow> eia_daily_load_row list" where
  "build_eia_daily_load L =
     (let U = hourly_unique L
      in map (\<lambda>k. \<lparr>e_region = fst k, e_day_utc = snd k,
                   e_daily_total_mwh = sql_sum (map l_load_mwh (filter (\<lambda>r. load_day_key r = k) U)),
                   e_daily_peak_mwh = sql_max (map l_load_mwh (filter (\<lambda>r. load_day_key r = k) U))\<rparr>)
             (group_keys load_day_key U))"

section \<open>processing.py: heat\_load\_daily\<close>

record heat_load_daily_row = noaa_heatwave_flags_row +
  region :: "string option"
  daily_total_mwh :: "real option"
  daily_peak_mwh :: "real option"

text \<open>
  The output column
  \<open>CASE WHEN n.station = 'IAD' THEN 'PJM' WHEN n.station = 'BOS' THEN 'ISNE' END\<close>
  (NULL when no branch applies) and the region of the join condition
  \<open>CASE WHEN n.station = 'IAD' THEN 'PJM' ELSE 'ISNE' END\<close>.
\<close>

definition select_region :: "string \<Rightarrow> string option" where
  "select_region st = (if st = ''IAD'' then Some ''PJM''
                       else if st = ''BOS'' then Some ''ISNE'' else None)"

definition join_region :: "string \<Rightarrow> string" where
  "join_region st = (if st = ''IAD'' then ''PJM'' else ''ISNE'')"

definition load_row :: "noaa_heatwave_flags_row \<times> eia_daily_load_row option \<Rightarrow> heat_load_daily_row" where
  "load_row p =
     (case p of (n, e) \<Rightarrow>
        \<lparr>station = station n, day_utc = day_utc n,
         daily_max_temp_C = daily_max_temp_C n, avg_temp_C = avg_temp_C n,
         is_hot_day = is_hot_day n, is_heatwave_day = is_heatwave_day n,
         region = select_region (station n),
         daily_total_mwh = Option.bind e e_daily_total_mwh,
         daily_peak_mwh = Option.bind e e_daily_peak_mwh\<rparr>)"

text \<open>
  \<open>ORDER BY region, n.day_utc\<close>, the name \<open>region\<close> being the output column; DuckDB
  sorts ascending with NULL last.
\<close>

definition order_key :: "heat_load_daily_row \<Rightarrow> bool \<times> string \<times> timestamp" where
  "order_key r = (region r = None, (case region r of None \<Rightarrow> [] | Some x \<Rightarrow> x), day_utc r)"

definition heat_load_daily ::
    "noaa_heatwave_flags_row list \<Rightarrow> eia_daily_load_row list \<Rightarrow> heat_load_daily_row list" where
  "heat_load_daily N E =
     sort_key order_key
       (map load_row
          (left_join (\<lambda>n e. e_region e = join_region (station n) \<and> e_day_utc e = day_utc n) N E))"

text \<open>The columns of an output row that come from the temperature side.\<close>

definition flags_part :: "heat_load_daily_row \<Rightarrow> noaa_heatwave_flags_row" where
  "flags_part r =
     \<lparr>station = station r, day_utc = day_utc r,
      daily_max_temp_C = daily_max_temp_C r, avg_temp_C = avg_temp_C r,
      is_hot_day = is_hot_day r, is_heatwave_day = is_heatwave_day r\<rparr>"

section \<open>Vocabulary of the properties\<close>

text \<open>
  A daily table of one station over consecutive calendar days from \<open>d0\<close> on, one
  (daily maximum, daily mean) pair for each day.  2024-07-01 is day 19905.
\<close>

definition daily_rows :: "string \<Rightarrow> date \<Rightarrow> (real option \<times> real option) list \<Rightarrow> noaa_daily_temp_row list" where
  "daily_rows s d0 vs =
     map (\<lambda>(i, v). \<lparr>station = s, day_utc = epoch (d0 + int i),
                    daily_max_temp_C = fst v, avg_temp_C = snd v\<rparr>) (enumerate 0 vs)"

text \<open>Station \<open>s\<close> has a row for calendar day \<open>d\<close> whose daily maximum reaches 32.22.\<close>

definition hot_on :: "noaa_daily_temp_row list \<Rightarrow> string \<Rightarrow> date \<Rightarrow> bool" where
  "hot_on T s d =
     (\<exists>r \<in> set T. station r = s \<and> cast_date (day_utc r) = d
                 \<and> sql_ge (daily_max_temp_C r) 32.22 = Some True)"

text \<open>
  The \<open>n\<close> days from \<open>a\<close> on are a maximal run of hot days of station \<open>s\<close>: each of
  them is hot, the day before and the day after are not.
\<close>

definition maximal_hot_run :: "noaa_daily_temp_row list \<Rightarrow> string \<Rightarrow> date \<Rightarrow> nat \<Rightarrow> bool" where
  "maximal_hot_run T s a n =
     (list_all (hot_on T s) [a ..  a + int n - 1]
      \<and> \<not> hot_on T s (a - 1) \<and> \<not> hot_on T s (a + int n))"

text \<open>The daily table has one row for a station and calendar day at most.\<close>

definition one_row_per_day :: "noaa_daily_temp_row list \<Rightarrow> bool" where
  "one_row_per_day T = distinct (map (\<lambda>r. (station r, cast_date (day_utc r))) T)"

text \<open>
  The number of distinct calendar days on which station \<open>s\<close> has an hourly row, and
  the number on which it has an hourly row with a non-NULL temperature.
\<close>

definition days_with_row :: "noaa_hourly_avg_row list \<Rightarrow> string \<Rightarrow> nat" where
  "days_with_row H s =
     length (remdups (map (\<lambda>r. cast_date (h_hour_utc r)) (filter (\<lambda>r. h_station r = s) H)))"

definition days_with_reading :: "noaa_hourly_avg_row list \<Rightarrow> string \<Rightarrow> nat" where
  "days_with_reading H s =
     length (remdups (map (\<lambda>r. cast_date (h_hour_utc r))
                          (filter (\<lambda>r. h_station r = s \<and> h_temp_C r \<noteq> None) H)))"

text \<open>
  The calendar days on which station \<open>s\<close> is hot, and the group number that the
  date-minus-rank rule gives a day \<open>d\<close> of a set \<open>D\<close> of days: \<open>d\<close> minus the number
  of days of \<open>D\<close> up to \<open>d\<close>.
\<close>

definition hot_dates :: "noaa_daily_temp_row list \<Rightarrow> string \<Rightarrow> date set" where
  "hot_dates T s = {d. hot_on T s d}"

definition grp_of :: "date set \<Rightarrow> date \<Rightarrow> int" where
  "grp_of D d = d - int (card {e \<in> D. e \<le> d})"

text \<open>Station \<open>s\<close> has a row for calendar day \<open>d\<close> whose daily maximum is NULL.\<close>

definition null_on :: "noaa_daily_temp_row list \<Rightarrow> string \<Rightarrow> date \<Rightarrow> bool" where
  "null_on T s d =
     (\<exists>r \<in> set T. station r = s \<and> cast_date (day_utc r) = d \<and> daily_max_temp_C r = None)"




section \<open>Facts about the left join\<close>

lemma left_join_alt:
  "left_join c A B =
     concat (map (\<lambda>a. if filter (c a) B = [] then [(a, None)]
                       else map (\<lambda>b. (a, Some b)) (filter (c a) B)) A)"
proof -
  have "(case filter (c a) B of [] \<Rightarrow> [(a, None)] | m # ms \<Rightarrow> map (\<lambda>b. (a, Some b)) (m # ms))
        = (if filter (c a) B = [] then [(a, None)] else map (\<lambda>b. (a, Some b)) (filter (c a) B))" for a
    by (simp split: list.splits)
  then show ?thesis by (simp add: left_join_def)
qed

lemma left_join_fst: "p \<in> set (left_join c A B) \<Longrightarrow> fst p \<in> set A"
  by (auto simp: left_join_alt split: if_splits)

lemma left_join_Some_iff:
  "(a, Some b) \<in> set (left_join c A B) \<longleftrightarrow> a \<in> set A \<and> b \<in> set B \<and> c a b"
  by (auto simp: left_join_alt filter_empty_conv split: if_splits)

lemma left_join_None_iff:
  "(a, None) \<in> set (left_join c A B) \<longleftrightarrow> a \<in> set A \<and> (\<forall>b \<in> set B. \<not> c a b)"
  by (auto simp: left_join_alt filter_empty_conv split: if_splits)

section \<open>The heatwave flags\<close>

text \<open>Every row of the flags table repeats a row of the daily table and carries its hot-day flag.\<close>

lemma flags_rows:
  assumes "r \<in> set (build_noaa_heatwave_flags T)"
  shows "\<exists>t \<in> set T. station r = station t \<and> day_utc r = day_utc t
           \<and> daily_max_temp_C r = daily_max_temp_C t \<and> avg_temp_C r = avg_temp_C t
           \<and> is_hot_day r = case_when (sql_ge (daily_max_temp_C t) 32.22) 1 0"
proof -
  from assms obtain p where
    p: "p \<in> set (left_join (\<lambda>b w. b_station b = fst w \<and> cast_date (b_day_utc b) = snd w) (base T)
           (heatwave_days (hot_grouped (hot_days (base T)))
              (heatwave_groups (hot_grouped (hot_days (base T))))))"
    and r: "r = flag_row p"
    by (auto simp: build_noaa_heatwave_flags_def Let_def)
  from p have "fst p \<in> set (base T)" by (rule left_join_fst)
  then obtain t where "t \<in> set T"
    and "fst p = \<lparr>b_station = station t, b_day_utc = day_utc t,
               b_daily_max_temp_C = daily_max_temp_C t, b_avg_temp_C = avg_temp_C t,
               b_is_hot_day = case_when (sql_ge (daily_max_temp_C t) 32.22) 1 0,
               b_day_date = cast_date (day_utc t)\<rparr>"
    by (auto simp: base_def)
  with r show ?thesis by (cases p) (auto simp: flag_row_def)
qed

text \<open>
  C1.  Station X, six consecutive days from 2024-07-01 (day 19905) with daily maxima
  30, 33, 34, 35, 31, 20 and any daily means: the hot-day flags are 0, 1, 1, 1, 0, 0 and
  the heatwave flags are 0, 1, 1, 1, 0, 0 (1 is true, 0 is false).
\<close>

theorem scenario_flags:
  "map is_hot_day (build_noaa_heatwave_flags
     (daily_rows ''X'' 19905
        [(Some 30, a0), (Some 33, a1), (Some 34, a2), (Some 35, a3), (Some 31, a4), (Some 20, a5)]))
     = [0, 1, 1, 1, 0, 0]
   \<and> map is_heatwave_day (build_noaa_heatwave_flags
     (daily_rows ''X'' 19905
        [(Some 30, a0), (Some 33, a1), (Some 34, a2), (Some 35, a3), (Some 31, a4), (Some 20, a5)]))
     = [0, 1, 1, 1, 0, 0]"
  by code_simp

section \<open>The missing-value sentinel of the TMP field\<close>

text \<open>
  C7 as the code has it.  A raw TMP field whose value part is \<open>+9999\<close> is cleaned to
  NULL, so it is neither zero nor 999.9.
\<close>

theorem plus_sentinel_is_null:
  "split_part_1 TMP = ''+9999'' \<Longrightarrow> clean_temp_C TMP = None"
  by (simp add: clean_temp_C_def)

theorem plus_sentinel_is_null_witness:
  "split_part_1 ''+9999,9'' = ''+9999'' \<and> clean_temp_C ''+9999,9'' = None"
proof -
  have h: "split_part_1 ''+9999,9'' = ''+9999''" by code_simp
  from h plus_sentinel_is_null [OF h] show ?thesis by simp
qed

text \<open>
  C7 as the claim has it fails for the value part \<open>-9999\<close>: the guard compares with
  \<open>+9999\<close> only, and the field is cleaned to -999.9.
\<close>

theorem minus_sentinel_counterexample:
  "clean_temp_C ''-9999,1'' = Some (- 999.9)"
  by code_simp

section \<open>Grouping and ordering\<close>

lemma length_filter_sort: "length (filter P (sort_key f xs)) = length (filter P xs)"
proof -
  have "mset (filter P (sort_key f xs)) = mset (filter P xs)" by simp
  then show ?thesis by (rule mset_eq_length)
qed

lemma group_keys_distinct: "distinct (group_keys key rows)"
  by (simp add: group_keys_def)

lemma group_keys_set: "set (group_keys key rows) = key ` set rows"
  by (simp add: group_keys_def)

lemma date_trunc_day_eq_iff: "date_trunc_day a = date_trunc_day b \<longleftrightarrow> cast_date a = cast_date b"
  by (simp add: date_trunc_day_def cast_date_def)

lemma daily_station_rows:
  "length (filter (\<lambda>r. station r = s) (build_noaa_daily H)) = days_with_row H s"
proof -
  let ?S = "{r \<in> set H. h_station r = s}"
  have "length (filter (\<lambda>r. station r = s) (build_noaa_daily H))
        = length (filter (\<lambda>k. fst k = s) (group_keys hourly_day_key H))"
    by (simp add: build_noaa_daily_def filter_map comp_def)
  also have "\<dots> = length (filter (\<lambda>k. fst k = s) (remdups (map hourly_day_key H)))"
    by (simp add: group_keys_def length_filter_sort)
  also have "\<dots> = length (remdups (map hourly_day_key (filter (\<lambda>r. h_station r = s) H)))"
  proof -
    have "filter (\<lambda>k. fst k = s) (map hourly_day_key H)
          = map hourly_day_key (filter (\<lambda>r. h_station r = s) H)"
      by (induction H) (simp_all add: hourly_day_key_def)
    then show ?thesis by (simp only: remdups_filter [symmetric])
  qed
  also have "\<dots> = card (hourly_day_key ` ?S)"
    by (simp add: length_remdups_card_conv)
  also have "\<dots> = card ((\<lambda>d. (s, d * 86400)) ` (\<lambda>r. cast_date (h_hour_utc r)) ` ?S)"
  proof -
    have "hourly_day_key ` ?S = (\<lambda>d. (s, d * 86400)) ` (\<lambda>r. cast_date (h_hour_utc r)) ` ?S"
      by (auto simp: hourly_day_key_def date_trunc_day_def cast_date_def image_iff)
    then show ?thesis by simp
  qed
  also have "\<dots> = card ((\<lambda>r. cast_date (h_hour_utc r)) ` ?S)"
    by (rule card_image) (simp add: inj_on_def)
  also have "\<dots> = days_with_row H s"
    by (simp add: days_with_row_def length_remdups_card_conv)
  finally show ?thesis .
qed

section \<open>The daily temperature table\<close>

lemma non_null_all_None: "\<forall>v \<in> set vs. v = None \<Longrightarrow> non_null vs = []"
  by (simp add: non_null_def filter_empty_conv)

text \<open>
  C5 as the code has it.  For every station, the daily table has as many rows as there
  are distinct calendar days with an hourly row of that station, whether or not any
  temperature of the day is non-NULL; a day all of whose hourly temperatures are NULL has
  its row, with NULL maximum and NULL mean.
\<close>

theorem daily_row_count:
  "length (filter (\<lambda>r. station r = s) (build_noaa_daily H)) = days_with_row H s
   \<and> (\<forall>r \<in> set (build_noaa_daily H).
        (\<forall>h \<in> set H. hourly_day_key h = (station r, day_utc r) \<longrightarrow> h_temp_C h = None)
        \<longrightarrow> daily_max_temp_C r = None \<and> avg_temp_C r = None)"
proof -
  have b: "\<forall>r \<in> set (build_noaa_daily H).
        (\<forall>h \<in> set H. hourly_day_key h = (station r, day_utc r) \<longrightarrow> h_temp_C h = None)
        \<longrightarrow> daily_max_temp_C r = None \<and> avg_temp_C r = None"
  proof (intro ballI impI)
    fix r assume r: "r \<in> set (build_noaa_daily H)"
      and n: "\<forall>h \<in> set H. hourly_day_key h = (station r, day_utc r) \<longrightarrow> h_temp_C h = None"
    let ?vs = "map h_temp_C (filter (\<lambda>h. hourly_day_key h = (station r, day_utc r)) H)"
    from r have mx: "daily_max_temp_C r = sql_max ?vs" and av: "avg_temp_C r = sql_avg ?vs"
      by (auto simp: build_noaa_daily_def)
    from n have "\<forall>v \<in> set ?vs. v = None" by auto
    then have "non_null ?vs = []" by (rule non_null_all_None)
    with mx av show "daily_max_temp_C r = None \<and> avg_temp_C r = None"
      by (simp add: sql_max_def sql_avg_def)
  qed
  from daily_station_rows [of s H] b show ?thesis by (intro conjI)
qed

theorem daily_row_count_witness:
  "\<lparr>station = ''IAD'', day_utc = 86400, daily_max_temp_C = None, avg_temp_C = None\<rparr>
     \<in> set (build_noaa_daily
          [\<lparr>h_station = ''IAD'', h_hour_utc = 3600, h_temp_C = Some 30\<rparr>,
           \<lparr>h_station = ''IAD'', h_hour_utc = 90000, h_temp_C = None\<rparr>])
   \<and> map h_temp_C (filter (\<lambda>h. hourly_day_key h = (''IAD'', 86400))
          [\<lparr>h_station = ''IAD'', h_hour_utc = 3600, h_temp_C = Some 30\<rparr>,
           \<lparr>h_station = ''IAD'', h_hour_utc = 90000, h_temp_C = None\<rparr>]) = [None]
   \<and> length (filter (\<lambda>r. station r = ''IAD'') (build_noaa_daily
          [\<lparr>h_station = ''IAD'', h_hour_utc = 3600, h_temp_C = Some 30\<rparr>,
           \<lparr>h_station = ''IAD'', h_hour_utc = 90000, h_temp_C = None\<rparr>])) = 2"
proof -
  let ?H = "[\<lparr>h_station = ''IAD'', h_hour_utc = 3600, h_temp_C = Some 30\<rparr>,
           \<lparr>h_station = ''IAD'', h_hour_utc = 90000, h_temp_C = None\<rparr>]"
  have out: "build_noaa_daily ?H =
     [\<lparr>station = ''IAD'', day_utc = 0, daily_max_temp_C = Some 30, avg_temp_C = Some 30\<rparr>,
      \<lparr>station = ''IAD'', day_utc = 86400, daily_max_temp_C = None, avg_temp_C = None\<rparr>]"
    by code_simp
  have d: "days_with_row ?H ''IAD'' = 2" by code_simp
  have n: "\<forall>h \<in> set ?H. hourly_day_key h = (''IAD'', 86400) \<longrightarrow> h_temp_C h = None"
    by (simp add: hourly_day_key_def date_trunc_day_def)
  have m: "map h_temp_C (filter (\<lambda>h. hourly_day_key h = (''IAD'', 86400)) ?H) = [None]"
    by (simp add: hourly_day_key_def date_trunc_day_def)
  from daily_row_count [of "''IAD''" ?H] d out n m show ?thesis by simp
qed

text \<open>
  C5 as the claim has it fails: one raw sample with the missing marker gives one hourly
  row with a NULL temperature, the daily table has one row for the station (with a NULL
  maximum), and the station has no day with a non-NULL hourly reading.
\<close>

theorem all_null_day_counterexample:
  "map daily_max_temp_C (filter (\<lambda>r. station r = ''IAD'')
      (build_noaa_daily (build_noaa_hourly_avg
         [\<lparr>t_station = ''IAD'', t_ts_utc = 1719792000, t_temp_C = clean_temp_C ''+9999,9''\<rparr>]))) = [None]
   \<and> days_with_reading (build_noaa_hourly_avg
         [\<lparr>t_station = ''IAD'', t_ts_utc = 1719792000, t_temp_C = clean_temp_C ''+9999,9''\<rparr>]) ''IAD'' = 0"
  by code_simp

section \<open>The join with the daily load table\<close>

lemma filter_distinct_key_le1:
  "distinct (map k xs) \<Longrightarrow> length (filter (\<lambda>x. k x = v) xs) \<le> 1"
proof (induction xs)
  case Nil
  then show ?case by simp
next
  case (Cons x xs)
  show ?case
  proof (cases "k x = v")
    case True
    with Cons.prems have "filter (\<lambda>y. k y = v) xs = []"
      by (force simp: filter_empty_conv image_iff)
    with True show ?thesis by simp
  next
    case False
    with Cons show ?thesis by simp
  qed
qed

lemma left_join_unique:
  assumes "\<And>a. a \<in> set A \<Longrightarrow> length (filter (c a) B) \<le> 1"
  shows "map fst (left_join c A B) = A"
  using assms
proof (induction A)
  case Nil
  then show ?case by (simp add: left_join_alt)
next
  case (Cons a A)
  have tl: "map fst (left_join c A B) = A" using Cons by simp
  have "length (filter (c a) B) \<le> 1" using Cons.prems by simp
  then have hd: "map fst (if filter (c a) B = [] then [(a, None)]
                       else map (\<lambda>b. (a, Some b)) (filter (c a) B)) = [a]"
    by (cases "filter (c a) B") (auto simp: comp_def)
  have "left_join c (a # A) B = (if filter (c a) B = [] then [(a, None)]
                       else map (\<lambda>b. (a, Some b)) (filter (c a) B)) @ left_join c A B"
    by (simp add: left_join_alt)
  with hd tl show ?case by (simp del: map_eq_Cons_conv)
qed

lemma eia_daily_keys:
  "map (\<lambda>e. (e_region e, e_day_utc e)) (build_eia_daily_load L) = group_keys load_day_key (hourly_unique L)"
  by (simp add: build_eia_daily_load_def Let_def comp_def)

lemma eia_daily_unique_key:
  "length (filter (\<lambda>e. e_region e = g \<and> e_day_utc e = d) (build_eia_daily_load L)) \<le> 1"
proof -
  have "distinct (map (\<lambda>e. (e_region e, e_day_utc e)) (build_eia_daily_load L))"
    by (simp only: eia_daily_keys group_keys_distinct)
  from filter_distinct_key_le1 [OF this, of "(g, d)"] show ?thesis by simp
qed

lemma flags_part_load_row: "flags_part (load_row (n, e)) = n"
  by (simp add: flags_part_def load_row_def)

lemma heat_load_daily_set:
  "set (heat_load_daily N E) =
     load_row ` set (left_join (\<lambda>n e. e_region e = join_region (station n) \<and> e_day_utc e = day_utc n) N E)"
  by (simp add: heat_load_daily_def)

text \<open>
  C4.  Joined with the daily load table that \<open>build_eia_daily_load\<close> builds, the final
  table repeats every row of the flags table exactly once (as a bag, and so in number),
  and a row with no daily load record for its region and day is kept with NULL load
  columns.
\<close>

theorem join_keeps_rows:
  "mset (map flags_part (heat_load_daily N (build_eia_daily_load L))) = mset N
   \<and> length (heat_load_daily N (build_eia_daily_load L)) = length N
   \<and> (\<forall>n \<in> set N.
        (\<forall>e \<in> set (build_eia_daily_load L).
            \<not> (e_region e = join_region (station n) \<and> e_day_utc e = day_utc n))
        \<longrightarrow> (\<exists>r \<in> set (heat_load_daily N (build_eia_daily_load L)).
               flags_part r = n \<and> daily_total_mwh r = None \<and> daily_peak_mwh r = None))"
proof -
  let ?E = "build_eia_daily_load L"
  let ?c = "\<lambda>n e. e_region e = join_region (station n) \<and> e_day_utc e = day_utc n"
  let ?J = "left_join ?c N ?E"
  have fst: "map fst ?J = N"
    by (rule left_join_unique) (rule eia_daily_unique_key)
  have "flags_part (load_row p) = fst p" for p
    by (cases p) (simp add: flags_part_load_row)
  then have "map flags_part (map load_row ?J) = map fst ?J"
    by simp
  with fst have proj: "map flags_part (map load_row ?J) = N" by simp
  have "mset (heat_load_daily N ?E) = mset (map load_row ?J)"
    by (simp add: heat_load_daily_def)
  then have "mset (map flags_part (heat_load_daily N ?E)) = mset (map flags_part (map load_row ?J))"
    by (simp only: mset_map)
  with proj have m: "mset (map flags_part (heat_load_daily N ?E)) = mset N" by simp
  have "length (heat_load_daily N ?E) = length (map fst ?J)"
    by (simp add: heat_load_daily_def)
  with fst have l: "length (heat_load_daily N ?E) = length N" by simp
  have n: "\<forall>n \<in> set N. (\<forall>e \<in> set ?E. \<not> ?c n e)
        \<longrightarrow> (\<exists>r \<in> set (heat_load_daily N ?E).
               flags_part r = n \<and> daily_total_mwh r = None \<and> daily_peak_mwh r = None)"
  proof (intro ballI impI)
    fix n assume "n \<in> set N" and "\<forall>e \<in> set ?E. \<not> ?c n e"
    then have "(n, None) \<in> set ?J" by (simp add: left_join_None_iff)
    then have "load_row (n, None) \<in> set (heat_load_daily N ?E)"
      by (simp only: heat_load_daily_set) (rule imageI)
    moreover have "flags_part (load_row (n, None)) = n" by (rule flags_part_load_row)
    moreover have "daily_total_mwh (load_row (n, None)) = None \<and> daily_peak_mwh (load_row (n, None)) = None"
      by (simp add: load_row_def)
    ultimately show "\<exists>r \<in> set (heat_load_daily N ?E).
               flags_part r = n \<and> daily_total_mwh r = None \<and> daily_peak_mwh r = None"
      by blast
  qed
  from m l n show ?thesis by (intro conjI)
qed

theorem join_keeps_rows_witness:
  "\<lparr>station = ''BOS'', day_utc = 86400, daily_max_temp_C = Some 33, avg_temp_C = Some 25,
      is_hot_day = 1, is_heatwave_day = 0\<rparr>
     \<in> set [\<lparr>station = ''BOS'', day_utc = 86400, daily_max_temp_C = Some 33, avg_temp_C = Some 25,
              is_hot_day = 1, is_heatwave_day = 0\<rparr>]
   \<and> filter (\<lambda>e. e_region e = join_region ''BOS'' \<and> e_day_utc e = 86400)
        (build_eia_daily_load [\<lparr>l_region = ''ISNE'', l_hour_utc = 3600, l_load_mwh = Some 100\<rparr>]) = []
   \<and> (\<exists>r \<in> set (heat_load_daily
                    [\<lparr>station = ''BOS'', day_utc = 86400, daily_max_temp_C = Some 33,
                      avg_temp_C = Some 25, is_hot_day = 1, is_heatwave_day = 0\<rparr>]
                    (build_eia_daily_load [\<lparr>l_region = ''ISNE'', l_hour_utc = 3600, l_load_mwh = Some 100\<rparr>])).
          flags_part r = \<lparr>station = ''BOS'', day_utc = 86400, daily_max_temp_C = Some 33,
                           avg_temp_C = Some 25, is_hot_day = 1, is_heatwave_day = 0\<rparr>
          \<and> daily_total_mwh r = None \<and> daily_peak_mwh r = None)"
proof -
  let ?n = "\<lparr>station = ''BOS'', day_utc = 86400, daily_max_temp_C = Some 33, avg_temp_C = Some 25,
      is_hot_day = 1, is_heatwave_day = 0\<rparr>"
  let ?L = "[\<lparr>l_region = ''ISNE'', l_hour_utc = 3600, l_load_mwh = Some 100\<rparr>]"
  have e: "build_eia_daily_load ?L
           = [\<lparr>e_region = ''ISNE'', e_day_utc = 0, e_daily_total_mwh = Some 100, e_daily_peak_mwh = Some 100\<rparr>]"
    by code_simp
  have a: "?n \<in> set [?n]" by simp
  have b: "\<forall>e \<in> set (build_eia_daily_load ?L). \<not> (e_region e = join_region ''BOS'' \<and> e_day_utc e = 86400)"
    by (simp add: e)
  have c: "filter (\<lambda>e. e_region e = join_region ''BOS'' \<and> e_day_utc e = 86400)
             (build_eia_daily_load ?L) = []"
    by (simp add: e)
  from join_keeps_rows [of "[?n]" ?L] a b c show ?thesis by simp
qed

text \<open>
  C6 as the code has it.  The join has no mapping table and no failure: a row whose
  station is neither IAD nor BOS is kept in the output, with a NULL region.
\<close>

theorem unmapped_station_row_kept:
  assumes "n \<in> set N" and "station n \<noteq> ''IAD''" and "station n \<noteq> ''BOS''"
  shows "\<exists>r \<in> set (heat_load_daily N E). flags_part r = n \<and> region r = None"
proof -
  let ?c = "\<lambda>n e. e_region e = join_region (station n) \<and> e_day_utc e = day_utc n"
  have "\<exists>m. (n, m) \<in> set (left_join ?c N E)"
  proof (cases "\<forall>e \<in> set E. \<not> ?c n e")
    case True
    with assms(1) have "(n, None) \<in> set (left_join ?c N E)" by (simp add: left_join_None_iff)
    then show ?thesis ..
  next
    case False
    then obtain e where "e \<in> set E" "?c n e" by blast
    with assms(1) have "(n, Some e) \<in> set (left_join ?c N E)" by (simp add: left_join_Some_iff)
    then show ?thesis ..
  qed
  then obtain m where "(n, m) \<in> set (left_join ?c N E)" ..
  then have "load_row (n, m) \<in> set (heat_load_daily N E)"
    by (simp only: heat_load_daily_set) (rule imageI)
  moreover have "flags_part (load_row (n, m)) = n" by (rule flags_part_load_row)
  moreover from assms(2,3) have "region (load_row (n, m)) = None"
    by (simp add: load_row_def select_region_def)
  ultimately show ?thesis by blast
qed

theorem unmapped_station_row_kept_witness:
  "\<lparr>station = ''NYC'', day_utc = 0, daily_max_temp_C = Some 33, avg_temp_C = Some 25,
      is_hot_day = 1, is_heatwave_day = 0\<rparr>
     \<in> set [\<lparr>station = ''NYC'', day_utc = 0, daily_max_temp_C = Some 33, avg_temp_C = Some 25,
              is_hot_day = 1, is_heatwave_day = 0\<rparr>]
   \<and> ''NYC'' \<noteq> ''IAD'' \<and> ''NYC'' \<noteq> ''BOS''
   \<and> (\<exists>r \<in> set (heat_load_daily
                    [\<lparr>station = ''NYC'', day_utc = 0, daily_max_temp_C = Some 33,
                      avg_temp_C = Some 25, is_hot_day = 1, is_heatwave_day = 0\<rparr>] []).
          flags_part r = \<lparr>station = ''NYC'', day_utc = 0, daily_max_temp_C = Some 33,
                           avg_temp_C = Some 25, is_hot_day = 1, is_heatwave_day = 0\<rparr>
          \<and> region r = None)"
  using unmapped_station_row_kept
          [of "\<lparr>station = ''NYC'', day_utc = 0, daily_max_temp_C = Some 33, avg_temp_C = Some 25,
                is_hot_day = 1, is_heatwave_day = 0\<rparr>"
              "[\<lparr>station = ''NYC'', day_utc = 0, daily_max_temp_C = Some 33, avg_temp_C = Some 25,
                 is_hot_day = 1, is_heatwave_day = 0\<rparr>]" "[]"]
  by simp

text \<open>
  C6 as the claim has it fails: station NYC has no region, and its row is produced.
\<close>

theorem unmapped_station_counterexample:
  "map (\<lambda>r. (station r, region r, daily_total_mwh r, daily_peak_mwh r))
     (heat_load_daily
        [\<lparr>station = ''NYC'', day_utc = 0, daily_max_temp_C = Some 33, avg_temp_C = Some 25,
          is_hot_day = 1, is_heatwave_day = 0\<rparr>]
        [\<lparr>e_region = ''ISNE'', e_day_utc = 0, e_daily_total_mwh = Some 115, e_daily_peak_mwh = Some 110\<rparr>])
   = [(''NYC'', None, Some 115, Some 110)]"
  by code_simp

text \<open>
  C10.  An output row whose station is neither IAD nor BOS has a NULL region, and its
  load columns are those of a daily load row of region ISNE for the same day (NULL when
  ISNE has no row for that day); every ISNE row of the day gives such an output row.
\<close>

theorem other_station_joins_ISNE:
  "(\<forall>r \<in> set (heat_load_daily N E). station r \<noteq> ''IAD'' \<and> station r \<noteq> ''BOS'' \<longrightarrow>
      region r = None
      \<and> ((\<exists>e \<in> set E. e_region e = ''ISNE'' \<and> e_day_utc e = day_utc r
              \<and> daily_total_mwh r = e_daily_total_mwh e \<and> daily_peak_mwh r = e_daily_peak_mwh e)
         \<or> ((\<forall>e \<in> set E. \<not> (e_region e = ''ISNE'' \<and> e_day_utc e = day_utc r))
              \<and> daily_total_mwh r = None \<and> daily_peak_mwh r = None)))
   \<and> (\<forall>n \<in> set N. \<forall>e \<in> set E.
        station n \<noteq> ''IAD'' \<and> station n \<noteq> ''BOS'' \<and> e_region e = ''ISNE'' \<and> e_day_utc e = day_utc n \<longrightarrow>
        (\<exists>r \<in> set (heat_load_daily N E). flags_part r = n \<and> region r = None
             \<and> daily_total_mwh r = e_daily_total_mwh e \<and> daily_peak_mwh r = e_daily_peak_mwh e))"
proof -
  let ?c = "\<lambda>n e. e_region e = join_region (station n) \<and> e_day_utc e = day_utc n"
  have a: "\<forall>r \<in> set (heat_load_daily N E). station r \<noteq> ''IAD'' \<and> station r \<noteq> ''BOS'' \<longrightarrow>
      region r = None
      \<and> ((\<exists>e \<in> set E. e_region e = ''ISNE'' \<and> e_day_utc e = day_utc r
              \<and> daily_total_mwh r = e_daily_total_mwh e \<and> daily_peak_mwh r = e_daily_peak_mwh e)
         \<or> ((\<forall>e \<in> set E. \<not> (e_region e = ''ISNE'' \<and> e_day_utc e = day_utc r))
              \<and> daily_total_mwh r = None \<and> daily_peak_mwh r = None))"
  proof (intro ballI impI)
    fix r assume r: "r \<in> set (heat_load_daily N E)" and st: "station r \<noteq> ''IAD'' \<and> station r \<noteq> ''BOS''"
    from r obtain n m where nm: "(n, m) \<in> set (left_join ?c N E)" and rr: "r = load_row (n, m)"
      by (auto simp: heat_load_daily_set)
    from rr have sn: "station r = station n" "day_utc r = day_utc n" by (simp_all add: load_row_def)
    with st have jr: "join_region (station n) = ''ISNE''" by (simp add: join_region_def)
    from rr st sn have reg: "region r = None" by (simp add: load_row_def select_region_def)
    show "region r = None
      \<and> ((\<exists>e \<in> set E. e_region e = ''ISNE'' \<and> e_day_utc e = day_utc r
              \<and> daily_total_mwh r = e_daily_total_mwh e \<and> daily_peak_mwh r = e_daily_peak_mwh e)
         \<or> ((\<forall>e \<in> set E. \<not> (e_region e = ''ISNE'' \<and> e_day_utc e = day_utc r))
              \<and> daily_total_mwh r = None \<and> daily_peak_mwh r = None))"
    proof (cases m)
      case None
      with nm have "\<forall>e \<in> set E. \<not> ?c n e" by (simp add: left_join_None_iff)
      with jr sn have "\<forall>e \<in> set E. \<not> (e_region e = ''ISNE'' \<and> e_day_utc e = day_utc r)" by simp
      moreover from None rr have "daily_total_mwh r = None \<and> daily_peak_mwh r = None"
        by (simp add: load_row_def)
      ultimately show ?thesis using reg by blast
    next
      case (Some e)
      with nm have "e \<in> set E" "?c n e" by (simp_all add: left_join_Some_iff)
      with jr sn have "e \<in> set E" "e_region e = ''ISNE''" "e_day_utc e = day_utc r" by simp_all
      moreover from Some rr have "daily_total_mwh r = e_daily_total_mwh e \<and> daily_peak_mwh r = e_daily_peak_mwh e"
        by (simp add: load_row_def)
      ultimately show ?thesis using reg by blast
    qed
  qed
  have b: "\<forall>n \<in> set N. \<forall>e \<in> set E.
        station n \<noteq> ''IAD'' \<and> station n \<noteq> ''BOS'' \<and> e_region e = ''ISNE'' \<and> e_day_utc e = day_utc n \<longrightarrow>
        (\<exists>r \<in> set (heat_load_daily N E). flags_part r = n \<and> region r = None
             \<and> daily_total_mwh r = e_daily_total_mwh e \<and> daily_peak_mwh r = e_daily_peak_mwh e)"
  proof (intro ballI impI)
    fix n e assume n: "n \<in> set N" and e: "e \<in> set E"
      and h: "station n \<noteq> ''IAD'' \<and> station n \<noteq> ''BOS'' \<and> e_region e = ''ISNE'' \<and> e_day_utc e = day_utc n"
    then have "?c n e" by (simp add: join_region_def)
    with n e have "(n, Some e) \<in> set (left_join ?c N E)" by (simp add: left_join_Some_iff)
    then have "load_row (n, Some e) \<in> set (heat_load_daily N E)"
      by (simp only: heat_load_daily_set) (rule imageI)
    moreover have "flags_part (load_row (n, Some e)) = n" by (rule flags_part_load_row)
    moreover from h have "region (load_row (n, Some e)) = None
         \<and> daily_total_mwh (load_row (n, Some e)) = e_daily_total_mwh e
         \<and> daily_peak_mwh (load_row (n, Some e)) = e_daily_peak_mwh e"
      by (simp add: load_row_def select_region_def)
    ultimately show "\<exists>r \<in> set (heat_load_daily N E). flags_part r = n \<and> region r = None
             \<and> daily_total_mwh r = e_daily_total_mwh e \<and> daily_peak_mwh r = e_daily_peak_mwh e"
      by blast
  qed
  from a b show ?thesis by (intro conjI)
qed

theorem other_station_joins_ISNE_witness:
  "load_row (\<lparr>station = ''NYC'', day_utc = 0, daily_max_temp_C = Some 33, avg_temp_C = Some 25,
               is_hot_day = 1, is_heatwave_day = 0\<rparr>,
             Some \<lparr>e_region = ''ISNE'', e_day_utc = 0, e_daily_total_mwh = Some 115, e_daily_peak_mwh = Some 110\<rparr>)
     \<in> set (heat_load_daily
        [\<lparr>station = ''NYC'', day_utc = 0, daily_max_temp_C = Some 33, avg_temp_C = Some 25,
          is_hot_day = 1, is_heatwave_day = 0\<rparr>]
        [\<lparr>e_region = ''PJM'', e_day_utc = 0, e_daily_total_mwh = Some 900, e_daily_peak_mwh = Some 800\<rparr>,
         \<lparr>e_region = ''ISNE'', e_day_utc = 0, e_daily_total_mwh = Some 115, e_daily_peak_mwh = Some 110\<rparr>])
   \<and> region (load_row (\<lparr>station = ''NYC'', day_utc = 0, daily_max_temp_C = Some 33, avg_temp_C = Some 25,
               is_hot_day = 1, is_heatwave_day = 0\<rparr>,
             Some \<lparr>e_region = ''ISNE'', e_day_utc = 0, e_daily_total_mwh = Some 115, e_daily_peak_mwh = Some 110\<rparr>))
       = None
   \<and> (\<exists>r \<in> set (heat_load_daily
        [\<lparr>station = ''NYC'', day_utc = 0, daily_max_temp_C = Some 33, avg_temp_C = Some 25,
          is_hot_day = 1, is_heatwave_day = 0\<rparr>]
        [\<lparr>e_region = ''PJM'', e_day_utc = 0, e_daily_total_mwh = Some 900, e_daily_peak_mwh = Some 800\<rparr>,
         \<lparr>e_region = ''ISNE'', e_day_utc = 0, e_daily_total_mwh = Some 115, e_daily_peak_mwh = Some 110\<rparr>]).
        flags_part r = \<lparr>station = ''NYC'', day_utc = 0, daily_max_temp_C = Some 33, avg_temp_C = Some 25,
                         is_hot_day = 1, is_heatwave_day = 0\<rparr>
        \<and> region r = None \<and> daily_total_mwh r = Some 115 \<and> daily_peak_mwh r = Some 110)"
proof -
  let ?n = "\<lparr>station = ''NYC'', day_utc = 0, daily_max_temp_C = Some 33, avg_temp_C = Some 25,
               is_hot_day = 1, is_heatwave_day = 0\<rparr>"
  let ?p = "\<lparr>e_region = ''PJM'', e_day_utc = 0, e_daily_total_mwh = Some 900, e_daily_peak_mwh = Some 800\<rparr>"
  let ?e = "\<lparr>e_region = ''ISNE'', e_day_utc = 0, e_daily_total_mwh = Some 115, e_daily_peak_mwh = Some 110\<rparr>"
  have out: "heat_load_daily [?n] [?p, ?e] = [load_row (?n, Some ?e)]" by code_simp
  have st: "station (load_row (?n, Some ?e)) = ''NYC''" by (simp add: load_row_def)
  note t = other_station_joins_ISNE [of "[?n]" "[?p, ?e]"]
  from t have "\<forall>r \<in> set (heat_load_daily [?n] [?p, ?e]). station r \<noteq> ''IAD'' \<and> station r \<noteq> ''BOS'' \<longrightarrow> region r = None"
    by blast
  with out st have a: "region (load_row (?n, Some ?e)) = None" by simp
  from t have "\<forall>n \<in> set [?n]. \<forall>e \<in> set [?p, ?e].
        station n \<noteq> ''IAD'' \<and> station n \<noteq> ''BOS'' \<and> e_region e = ''ISNE'' \<and> e_day_utc e = day_utc n \<longrightarrow>
        (\<exists>r \<in> set (heat_load_daily [?n] [?p, ?e]). flags_part r = n \<and> region r = None
             \<and> daily_total_mwh r = e_daily_total_mwh e \<and> daily_peak_mwh r = e_daily_peak_mwh e)"
    by blast
  then have b: "\<exists>r \<in> set (heat_load_daily [?n] [?p, ?e]). flags_part r = ?n \<and> region r = None
             \<and> daily_total_mwh r = Some 115 \<and> daily_peak_mwh r = Some 110"
    by simp
  from out a b show ?thesis by simp
qed

section \<open>The daily load table\<close>

lemma fold_max_le_sum_list:
  fixes x :: real
  assumes "\<forall>v \<in> set (x # xs). 0 \<le> v"
  shows "fold max xs x \<le> sum_list (x # xs)"
proof -
  have "fold max xs x = Max (set (x # xs))" by (rule Max.set_eq_fold [symmetric])
  also have "\<dots> \<in> set (x # xs)" by (rule Max_in) simp_all
  finally have "fold max xs x \<in> set (x # xs)" .
  then show ?thesis using assms by (intro member_le_sum_list) auto
qed

lemma non_null_set: "set (non_null vs) = {v. Some v \<in> set vs}"
  by (force simp: non_null_def image_iff)

text \<open>
  C9 as the code has it.  For a row of the daily load table, when no hourly load of its
  region and day is negative and one at least is positive, the peak and the total are
  not NULL and the peak is at most the total.
\<close>

theorem peak_le_total:
  assumes e: "e \<in> set (build_eia_daily_load L)"
    and nonneg: "\<forall>r \<in> set L. load_day_key r = (e_region e, e_day_utc e) \<longrightarrow>
                   (\<forall>v. l_load_mwh r = Some v \<longrightarrow> 0 \<le> v)"
    and pos: "\<exists>r \<in> set L. load_day_key r = (e_region e, e_day_utc e) \<and>
                   (\<exists>v. l_load_mwh r = Some v \<and> 0 < v)"
  shows "\<exists>p t. e_daily_peak_mwh e = Some p \<and> e_daily_total_mwh e = Some t \<and> p \<le> t"
proof -
  let ?k = "(e_region e, e_day_utc e)"
  let ?vs = "map l_load_mwh (filter (\<lambda>r. load_day_key r = ?k) (hourly_unique L))"
  from e have tot: "e_daily_total_mwh e = sql_sum ?vs" and peak: "e_daily_peak_mwh e = sql_max ?vs"
    by (auto simp: build_eia_daily_load_def Let_def)
  have mem: "set (non_null ?vs) = {v. \<exists>r \<in> set L. load_day_key r = ?k \<and> l_load_mwh r = Some v}"
    by (auto simp: non_null_set hourly_unique_def image_iff)
  from pos obtain r v where "r \<in> set L" "load_day_key r = ?k" "l_load_mwh r = Some v"
    by blast
  with mem have "v \<in> set (non_null ?vs)" by blast
  then have "non_null ?vs \<noteq> []" by auto
  then obtain x xs where nn: "non_null ?vs = x # xs" by (cases "non_null ?vs") auto
  have "\<forall>v \<in> set (x # xs). 0 \<le> v"
  proof
    fix v assume "v \<in> set (x # xs)"
    with nn mem obtain r where "r \<in> set L" "load_day_key r = ?k" "l_load_mwh r = Some v"
      by auto
    with nonneg show "0 \<le> v" by blast
  qed
  then have "fold max xs x \<le> sum_list (x # xs)" by (rule fold_max_le_sum_list)
  with tot peak nn show ?thesis by (simp add: sql_sum_def sql_max_def)
qed

theorem peak_le_total_witness:
  "\<lparr>e_region = ''PJM'', e_day_utc = 0, e_daily_total_mwh = Some 370, e_daily_peak_mwh = Some 150\<rparr>
     \<in> set (build_eia_daily_load
         [\<lparr>l_region = ''PJM'', l_hour_utc = 0, l_load_mwh = Some 100\<rparr>,
          \<lparr>l_region = ''PJM'', l_hour_utc = 3600, l_load_mwh = Some 150\<rparr>,
          \<lparr>l_region = ''PJM'', l_hour_utc = 7200, l_load_mwh = Some 120\<rparr>])
   \<and> (\<exists>p t. Some (150::real) = Some p \<and> Some (370::real) = Some t \<and> p \<le> t)"
proof -
  let ?L = "[\<lparr>l_region = ''PJM'', l_hour_utc = 0, l_load_mwh = Some 100\<rparr>,
          \<lparr>l_region = ''PJM'', l_hour_utc = 3600, l_load_mwh = Some 150\<rparr>,
          \<lparr>l_region = ''PJM'', l_hour_utc = 7200, l_load_mwh = Some 120\<rparr>]"
  let ?e = "\<lparr>e_region = ''PJM'', e_day_utc = 0, e_daily_total_mwh = Some 370, e_daily_peak_mwh = Some 150\<rparr>"
  have out: "build_eia_daily_load ?L = [?e]" by code_simp
  then have a: "?e \<in> set (build_eia_daily_load ?L)" by simp
  have b: "\<forall>r \<in> set ?L. load_day_key r = (e_region ?e, e_day_utc ?e) \<longrightarrow>
                   (\<forall>v. l_load_mwh r = Some v \<longrightarrow> 0 \<le> v)"
    by simp
  have c: "\<exists>r \<in> set ?L. load_day_key r = (e_region ?e, e_day_utc ?e) \<and>
                   (\<exists>v. l_load_mwh r = Some v \<and> 0 < v)"
    by (simp add: load_day_key_def date_trunc_day_def)
  from peak_le_total [OF a b c] a show ?thesis by simp
qed

text \<open>
  C9 as the claim has it fails: with hourly loads 5 and -10 on one region-day a positive
  reading exists, the peak is 5 and the total is -5.
\<close>

theorem negative_load_counterexample:
  "build_eia_daily_load
     [\<lparr>l_region = ''PJM'', l_hour_utc = 0, l_load_mwh = Some 5\<rparr>,
      \<lparr>l_region = ''PJM'', l_hour_utc = 3600, l_load_mwh = Some (- 10)\<rparr>]
   = [\<lparr>e_region = ''PJM'', e_day_utc = 0, e_daily_total_mwh = Some (- 5), e_daily_peak_mwh = Some 5\<rparr>]"
  by code_simp

text \<open>Rows that are equal in all three columns are counted once.\<close>

lemma identical_duplicates_collapse:
  "build_eia_daily_load (L @ L) = build_eia_daily_load L"
proof -
  have "hourly_unique (L @ L) = hourly_unique L"
    by (simp add: hourly_unique_def remdups_append)
  then show ?thesis by (simp add: build_eia_daily_load_def)
qed

section \<open>One representative for each region and hour\<close>



















section \<open>The date-minus-rank rule\<close>

text \<open>
  Two hot days have the same group number exactly when every day between them is hot.
\<close>

lemma grp_of_diff:
  assumes "finite D" and "d \<le> e"
  shows "grp_of D e - grp_of D d = int (card ({d<..e} - D))"
proof -
  have split: "{x \<in> D. x \<le> e} = {x \<in> D. x \<le> d} \<union> (D \<inter> {d<..e})"
    using assms(2) by auto
  have disj: "{x \<in> D. x \<le> d} \<inter> (D \<inter> {d<..e}) = {}" by auto
  have fin: "finite {x \<in> D. x \<le> d}" "finite (D \<inter> {d<..e})" using assms(1) by simp_all
  have c1: "card {x \<in> D. x \<le> e} = card {x \<in> D. x \<le> d} + card (D \<inter> {d<..e})"
    by (simp only: split card_Un_disjoint [OF fin disj])
  have "card ({d<..e} - D) = card {d<..e} - card ({d<..e} \<inter> D)"
    by (rule card_Diff_subset_Int) simp
  moreover have "card ({d<..e} \<inter> D) \<le> card {d<..e}"
    by (rule card_mono) simp_all
  ultimately have c2: "int (card ({d<..e} - D)) = (e - d) - int (card (D \<inter> {d<..e}))"
    using assms(2) by (simp add: Int_commute)
  show ?thesis using c1 c2 by (simp add: grp_of_def)
qed

lemma grp_of_eq_iff:
  assumes "finite D" and "d \<le> e"
  shows "grp_of D e = grp_of D d \<longleftrightarrow> {d<..e} \<subseteq> D"
proof -
  have "finite ({d<..e} - D)" by simp
  then have "card ({d<..e} - D) = 0 \<longleftrightarrow> {d<..e} - D = {}" by (rule card_0_eq)
  moreover have "grp_of D e = grp_of D d \<longleftrightarrow> int (card ({d<..e} - D)) = 0"
    using grp_of_diff [OF assms] by linarith
  ultimately have "grp_of D e = grp_of D d \<longleftrightarrow> {d<..e} - D = {}" by simp
  then show ?thesis by (simp only: Diff_eq_empty_iff)
qed

lemma grp_of_run:
  assumes fin: "finite D"
    and run: "{a ..< a + int n} \<subseteq> D" and before: "a - 1 \<notin> D" and after: "a + int n \<notin> D"
    and d: "a \<le> d" "d < a + int n" and e: "e \<in> D"
  shows "grp_of D e = grp_of D d \<longleftrightarrow> a \<le> e \<and> e < a + int n"
proof (cases "d \<le> e")
  case True
  have "{d<..e} \<subseteq> D \<longleftrightarrow> e < a + int n"
  proof
    assume sub: "{d<..e} \<subseteq> D"
    show "e < a + int n"
    proof (rule ccontr)
      assume "\<not> e < a + int n"
      with d have "a + int n \<in> {d<..e}" by simp
      with sub after show False by blast
    qed
  next
    assume "e < a + int n"
    with d have "{d<..e} \<subseteq> {a ..< a + int n}" by auto
    with run show "{d<..e} \<subseteq> D" by blast
  qed
  with grp_of_eq_iff [OF fin True] True d show ?thesis by auto
next
  case False
  then have le: "e \<le> d" by simp
  have "{e<..d} \<subseteq> D \<longleftrightarrow> a \<le> e"
  proof
    assume sub: "{e<..d} \<subseteq> D"
    show "a \<le> e"
    proof (rule ccontr)
      assume "\<not> a \<le> e"
      with e before have "e < a - 1" by (cases "e = a - 1") auto
      with d have "a - 1 \<in> {e<..d}" by simp
      with sub before show False by blast
    qed
  next
    assume "a \<le> e"
    with d have "{e<..d} \<subseteq> {a ..< a + int n}" by auto
    with run show "{e<..d} \<subseteq> D" by blast
  qed
  with grp_of_eq_iff [OF fin le, symmetric] le d show ?thesis by auto
qed

lemma grp_of_run_count:
  assumes fin: "finite D"
    and run: "{a ..< a + int n} \<subseteq> D" and before: "a - 1 \<notin> D" and after: "a + int n \<notin> D"
    and d: "a \<le> d" "d < a + int n"
  shows "card {e \<in> D. grp_of D e = grp_of D d} = n"
proof -
  have "{e \<in> D. grp_of D e = grp_of D d} = {a ..< a + int n}"
    using grp_of_run [OF fin run before after d] run by auto
  then show ?thesis by simp
qed

text \<open>
  In a sorted list of distinct days, the row number of a day is the number of days up to it.
\<close>

lemma rank_in_sorted:
  fixes ds :: "int list"
  assumes "sorted ds" and "distinct ds" and "i < length ds"
  shows "card {e \<in> set ds. e \<le> ds ! i} = Suc i"
proof -
  have strict: "sorted_wrt (<) ds" using assms by (simp add: strict_sorted_iff)
  have "{e \<in> set ds. e \<le> ds ! i} = set (take (Suc i) ds)"
  proof (intro set_eqI iffI)
    fix e assume "e \<in> {e \<in> set ds. e \<le> ds ! i}"
    then obtain j where j: "j < length ds" "e = ds ! j" "ds ! j \<le> ds ! i"
      by (auto simp: in_set_conv_nth)
    have "j \<le> i"
    proof (rule ccontr)
      assume "\<not> j \<le> i"
      then have "i < j" by simp
      from sorted_wrt_nth_less [OF strict this j(1)] j(3) show False by simp
    qed
    with j assms(3) show "e \<in> set (take (Suc i) ds)"
      by (auto simp: in_set_conv_nth intro!: exI [of _ j])
  next
    fix e assume "e \<in> set (take (Suc i) ds)"
    then obtain j where j: "j < Suc i" "j < length ds" "e = ds ! j"
      by (auto simp: in_set_conv_nth)
    then have "ds ! j \<le> ds ! i" using assms(1,3) by (intro sorted_nth_mono) auto
    with j show "e \<in> {e \<in> set ds. e \<le> ds ! i}" by auto
  qed
  moreover have "card (set (take (Suc i) ds)) = Suc i"
    using assms(2,3) by (simp add: distinct_card)
  ultimately show ?thesis by simp
qed

lemma zip_ranks:
  fixes ds :: "int list"
  assumes "sorted ds" and "distinct ds"
  shows "zip ds [1 .. int (length ds)] = map (\<lambda>d. (d, int (card {e \<in> set ds. e \<le> d}))) ds"
proof (rule nth_equalityI)
  show "length (zip ds [1 .. int (length ds)]) = length (map (\<lambda>d. (d, int (card {e \<in> set ds. e \<le> d}))) ds)"
    by simp
next
  fix i assume "i < length (zip ds [1 .. int (length ds)])"
  then have i: "i < length ds" by simp
  then have "[1 .. int (length ds)] ! i = 1 + int i" by simp
  with i rank_in_sorted [OF assms i]
  show "zip ds [1 .. int (length ds)] ! i = map (\<lambda>d. (d, int (card {e \<in> set ds. e \<le> d}))) ds ! i"
    by simp
qed

section \<open>The CTEs of the heatwave query, station by station\<close>

lemma hot_flag_iff:
  "(case_when (sql_ge m 32.22) (1::int) 0 = 1) \<longleftrightarrow> sql_ge m 32.22 = Some True"
  by (simp add: case_when_def)

lemma base_mem:
  "b \<in> set (base T) \<longleftrightarrow>
     (\<exists>t \<in> set T. b = \<lparr>b_station = station t, b_day_utc = day_utc t,
               b_daily_max_temp_C = daily_max_temp_C t, b_avg_temp_C = avg_temp_C t,
               b_is_hot_day = case_when (sql_ge (daily_max_temp_C t) 32.22) 1 0,
               b_day_date = cast_date (day_utc t)\<rparr>)"
  by (auto simp: base_def)

lemma hot_part_dates:
  "set (map b_day_date (filter (\<lambda>b. b_station b = s) (filter (\<lambda>b. b_is_hot_day b = 1) (base T))))
   = hot_dates T s"
proof (intro set_eqI iffI)
  fix d
  assume "d \<in> set (map b_day_date
            (filter (\<lambda>b. b_station b = s) (filter (\<lambda>b. b_is_hot_day b = 1) (base T))))"
  then obtain b where b: "b \<in> set (base T)" "b_station b = s" "b_is_hot_day b = 1" "b_day_date b = d"
    by auto
  from b(1) obtain t where t: "t \<in> set T"
    and bt: "b = \<lparr>b_station = station t, b_day_utc = day_utc t,
               b_daily_max_temp_C = daily_max_temp_C t, b_avg_temp_C = avg_temp_C t,
               b_is_hot_day = case_when (sql_ge (daily_max_temp_C t) 32.22) 1 0,
               b_day_date = cast_date (day_utc t)\<rparr>"
    by (auto simp only: base_mem)
  from b(2,3,4) bt have "station t = s" "cast_date (day_utc t) = d"
    "case_when (sql_ge (daily_max_temp_C t) 32.22) (1::int) 0 = 1"
    by simp_all
  with t show "d \<in> hot_dates T s"
    by (auto simp only: hot_dates_def hot_on_def hot_flag_iff mem_Collect_eq)
next
  fix d assume "d \<in> hot_dates T s"
  then obtain t where t: "t \<in> set T" "station t = s" "cast_date (day_utc t) = d"
      "sql_ge (daily_max_temp_C t) 32.22 = Some True"
    by (auto simp only: hot_dates_def hot_on_def mem_Collect_eq)
  let ?b = "\<lparr>b_station = station t, b_day_utc = day_utc t,
               b_daily_max_temp_C = daily_max_temp_C t, b_avg_temp_C = avg_temp_C t,
               b_is_hot_day = case_when (sql_ge (daily_max_temp_C t) 32.22) 1 0,
               b_day_date = cast_date (day_utc t)\<rparr>"
  from t(1) have "?b \<in> set (base T)" by (auto simp only: base_mem)
  moreover from t(4) have "b_is_hot_day ?b = 1" by (simp add: case_when_def)
  moreover from t(2,3) have "b_station ?b = s" "b_day_date ?b = d" by simp_all
  ultimately have "?b \<in> set (filter (\<lambda>b. b_station b = s) (filter (\<lambda>b. b_is_hot_day b = 1) (base T)))"
    by simp
  then have "b_day_date ?b \<in> b_day_date ` set (filter (\<lambda>b. b_station b = s) (filter (\<lambda>b. b_is_hot_day b = 1) (base T)))"
    by (rule imageI)
  with \<open>b_day_date ?b = d\<close> show "d \<in> set (map b_day_date
            (filter (\<lambda>b. b_station b = s) (filter (\<lambda>b. b_is_hot_day b = 1) (base T))))"
    by simp
qed

lemma base_keys:
  "map (\<lambda>b. (b_station b, b_day_date b)) (base T) = map (\<lambda>r. (station r, cast_date (day_utc r))) T"
  by (simp add: base_def comp_def)

lemma hot_part_distinct:
  assumes "one_row_per_day T"
  shows "distinct (map b_day_date (filter (\<lambda>b. b_station b = s) (filter (\<lambda>b. b_is_hot_day b = 1) (base T))))"
proof -
  let ?P = "filter (\<lambda>b. b_station b = s) (filter (\<lambda>b. b_is_hot_day b = 1) (base T))"
  from assms have "distinct (map (\<lambda>b. (b_station b, b_day_date b)) (base T))"
    by (simp only: base_keys one_row_per_day_def)
  then have "distinct (map (\<lambda>b. (b_station b, b_day_date b)) ?P)"
    by (intro distinct_map_filter)
  then have dp: "distinct ?P" and inj: "inj_on (\<lambda>b. (b_station b, b_day_date b)) (set ?P)"
    by (simp_all only: distinct_map)
  have "inj_on b_day_date (set ?P)"
  proof (rule inj_onI)
    fix x y assume x: "x \<in> set ?P" and y: "y \<in> set ?P" and e: "b_day_date x = b_day_date y"
    from x y have "b_station x = b_station y" by simp
    with e have "(b_station x, b_day_date x) = (b_station y, b_day_date y)" by simp
    from inj this x y show "x = y" by (rule inj_onD)
  qed
  with dp show ?thesis by (simp only: distinct_map)
qed

lemma map_sort_key: "map f (sort_key f xs) = sort (map f xs)"
  by (rule properties_for_sort [symmetric]) simp_all

lemma number_partition_ranks:
  assumes st: "\<forall>b \<in> set part. b_station b = s" and di: "distinct (map b_day_date part)"
  shows "number_partition part =
           map (\<lambda>d. \<lparr>hd_station = s, hd_day_date = d,
                      hd_rn = int (card {e \<in> set (map b_day_date part). e \<le> d})\<rparr>)
               (sort (map b_day_date part))"
proof -
  let ?ys = "sort_key b_day_date part"
  let ?ds = "sort (map b_day_date part)"
  have ds: "map b_day_date ?ys = ?ds" by (rule map_sort_key)
  have sd: "sorted ?ds" "distinct ?ds" using di by simp_all
  have len: "length ?ds = length part" by simp
  have "number_partition part =
          map (\<lambda>(b, n). \<lparr>hd_station = b_station b, hd_day_date = b_day_date b, hd_rn = n\<rparr>)
              (zip ?ys [1 .. int (length part)])"
    by (simp add: number_partition_def)
  also have "\<dots> = map (\<lambda>(b, n). \<lparr>hd_station = s, hd_day_date = b_day_date b, hd_rn = n\<rparr>)
              (zip ?ys [1 .. int (length part)])"
  proof (rule map_cong [OF refl])
    fix p assume pin: "p \<in> set (zip ?ys [1 .. int (length part)])"
    obtain b n where p: "p = (b, n)" by (cases p)
    with pin have "(b, n) \<in> set (zip ?ys [1 .. int (length part)])" by (simp only:)
    then have "b \<in> set ?ys" by (rule set_zip_leftD)
    with st p have "b_station (fst p) = s" by simp
    then show "(case p of (b, n) \<Rightarrow> \<lparr>hd_station = b_station b, hd_day_date = b_day_date b, hd_rn = n\<rparr>)
             = (case p of (b, n) \<Rightarrow> \<lparr>hd_station = s, hd_day_date = b_day_date b, hd_rn = n\<rparr>)"
      by (cases p) simp
  qed
  also have "\<dots> = map (\<lambda>(d, n). \<lparr>hd_station = s, hd_day_date = d, hd_rn = n\<rparr>)
              (zip (map b_day_date ?ys) [1 .. int (length part)])"
    by (simp add: zip_map1 split_def comp_def)
  also have "\<dots> = map (\<lambda>(d, n). \<lparr>hd_station = s, hd_day_date = d, hd_rn = n\<rparr>)
              (zip ?ds [1 .. int (length ?ds)])"
    by (simp only: ds len)
  also have "\<dots> = map (\<lambda>(d, n). \<lparr>hd_station = s, hd_day_date = d, hd_rn = n\<rparr>)
              (map (\<lambda>d. (d, int (card {e \<in> set ?ds. e \<le> d}))) ?ds)"
    by (simp only: zip_ranks [OF sd])
  also have "\<dots> = map (\<lambda>d. \<lparr>hd_station = s, hd_day_date = d,
                      hd_rn = int (card {e \<in> set (map b_day_date part). e \<le> d})\<rparr>) ?ds"
    by (simp add: comp_def)
  finally show ?thesis .
qed

lemma concat_select:
  assumes "distinct ss"
  shows "concat (map (\<lambda>x. if x = s then F x else []) ss) = (if s \<in> set ss then F s else [])"
  using assms by (induction ss) auto

lemma number_partition_station:
  assumes "\<forall>b \<in> set part. b_station b = s'"
  shows "\<forall>h \<in> set (number_partition part). hd_station h = s'"
  using assms by (auto simp: number_partition_def dest!: set_zip_leftD)

lemma hot_days_station:
  "filter (\<lambda>h. hd_station h = s) (hot_days B)
   = number_partition (filter (\<lambda>b. b_station b = s) (filter (\<lambda>b. b_is_hot_day b = 1) B))"
proof -
  let ?hot = "filter (\<lambda>b. b_is_hot_day b = 1) B"
  let ?F = "\<lambda>x. number_partition (filter (\<lambda>b. b_station b = x) ?hot)"
  have each: "filter (\<lambda>h. hd_station h = s) (?F x) = (if x = s then ?F x else [])" for x
  proof -
    have "\<forall>h \<in> set (?F x). hd_station h = x"
      by (rule number_partition_station) simp
    then show ?thesis by (auto simp: filter_empty_conv filter_id_conv)
  qed
  have "filter (\<lambda>h. hd_station h = s) (hot_days B)
        = concat (map (\<lambda>x. filter (\<lambda>h. hd_station h = s) (?F x)) (remdups (map b_station ?hot)))"
    by (simp add: hot_days_def Let_def filter_concat comp_def)
  also have "\<dots> = concat (map (\<lambda>x. if x = s then ?F x else []) (remdups (map b_station ?hot)))"
    by (simp only: each)
  also have "\<dots> = (if s \<in> set (remdups (map b_station ?hot)) then ?F s else [])"
    by (rule concat_select) simp
  also have "\<dots> = ?F s"
  proof (cases "s \<in> set (remdups (map b_station ?hot))")
    case True
    then show ?thesis by simp
  next
    case False
    then have "filter (\<lambda>b. b_station b = s) ?hot = []"
      by (auto simp: filter_empty_conv)
    with False show ?thesis by (simp add: number_partition_def)
  qed
  finally show ?thesis .
qed

lemma hot_grouped_station:
  assumes "one_row_per_day T"
  shows "filter (\<lambda>g. hg_station g = s) (hot_grouped (hot_days (base T)))
         = map (\<lambda>d. \<lparr>hg_station = s, hg_day_date = d,
                      hg_rn = int (card {e \<in> hot_dates T s. e \<le> d}),
                      hg_grp_id = grp_of (hot_dates T s) d\<rparr>)
               (sort (map b_day_date
                  (filter (\<lambda>b. b_station b = s) (filter (\<lambda>b. b_is_hot_day b = 1) (base T)))))"
proof -
  let ?part = "filter (\<lambda>b. b_station b = s) (filter (\<lambda>b. b_is_hot_day b = 1) (base T))"
  have "filter (\<lambda>g. hg_station g = s) (hot_grouped (hot_days (base T)))
        = hot_grouped (filter (\<lambda>h. hd_station h = s) (hot_days (base T)))"
    by (simp add: hot_grouped_def filter_map comp_def)
  also have "\<dots> = hot_grouped (number_partition ?part)"
    by (simp only: hot_days_station)
  also have "\<dots> = hot_grouped (map (\<lambda>d. \<lparr>hd_station = s, hd_day_date = d,
                      hd_rn = int (card {e \<in> set (map b_day_date ?part). e \<le> d})\<rparr>)
               (sort (map b_day_date ?part)))"
    using number_partition_ranks [of ?part s] hot_part_distinct [OF assms, of s] by simp
  also have "\<dots> = map (\<lambda>d. \<lparr>hg_station = s, hg_day_date = d,
                      hg_rn = int (card {e \<in> hot_dates T s. e \<le> d}),
                      hg_grp_id = grp_of (hot_dates T s) d\<rparr>) (sort (map b_day_date ?part))"
    by (simp add: hot_grouped_def comp_def epoch_def grp_of_def hot_part_dates [of s T, simplified])
  finally show ?thesis .
qed

lemma hot_dates_finite: "finite (hot_dates T s)"
  by (simp only: hot_part_dates [symmetric] finite_set)

lemma hot_grouped_count:
  assumes "one_row_per_day T"
  shows "length (filter (\<lambda>g. hg_key g = (s, k)) (hot_grouped (hot_days (base T))))
         = card {d \<in> hot_dates T s. grp_of (hot_dates T s) d = k}"
proof -
  let ?G = "hot_grouped (hot_days (base T))"
  let ?D = "hot_dates T s"
  let ?part = "filter (\<lambda>b. b_station b = s) (filter (\<lambda>b. b_is_hot_day b = 1) (base T))"
  let ?ds = "sort (map b_day_date ?part)"
  let ?F = "\<lambda>d. \<lparr>hg_station = s, hg_day_date = d,
                      hg_rn = int (card {e \<in> ?D. e \<le> d}), hg_grp_id = grp_of ?D d\<rparr>"
  have ds: "set ?ds = ?D" using hot_part_dates [of s T] by simp
  have di: "distinct ?ds" using hot_part_distinct [OF assms, of s] by simp
  have "filter (\<lambda>g. hg_key g = (s, k)) ?G
        = filter (\<lambda>g. hg_grp_id g = k) (filter (\<lambda>g. hg_station g = s) ?G)"
    by (simp add: hg_key_def)
  also have "\<dots> = filter (\<lambda>g. hg_grp_id g = k) (map ?F ?ds)"
    by (simp only: hot_grouped_station [OF assms])
  also have "\<dots> = map ?F (filter (\<lambda>d. grp_of ?D d = k) ?ds)"
    by (simp add: filter_map comp_def)
  finally have "length (filter (\<lambda>g. hg_key g = (s, k)) ?G)
                = length (filter (\<lambda>d. grp_of ?D d = k) ?ds)"
    by simp
  also have "\<dots> = card ({d. grp_of ?D d = k} \<inter> set ?ds)"
    using di by (rule distinct_length_filter)
  also have "{d. grp_of ?D d = k} \<inter> set ?ds = {d \<in> ?D. grp_of ?D d = k}"
    using ds by auto
  finally show ?thesis .
qed

lemma hot_grouped_mem:
  assumes "one_row_per_day T"
  shows "g \<in> set (hot_grouped (hot_days (base T))) \<and> hg_station g = s \<longleftrightarrow>
         (\<exists>d \<in> hot_dates T s. g = \<lparr>hg_station = s, hg_day_date = d,
                      hg_rn = int (card {e \<in> hot_dates T s. e \<le> d}),
                      hg_grp_id = grp_of (hot_dates T s) d\<rparr>)"
proof -
  let ?G = "hot_grouped (hot_days (base T))"
  let ?part = "filter (\<lambda>b. b_station b = s) (filter (\<lambda>b. b_is_hot_day b = 1) (base T))"
  have ds: "set (sort (map b_day_date ?part)) = hot_dates T s"
    using hot_part_dates [of s T] by simp
  have "g \<in> set ?G \<and> hg_station g = s \<longleftrightarrow> g \<in> set (filter (\<lambda>g. hg_station g = s) ?G)"
    by simp
  also have "\<dots> \<longleftrightarrow> g \<in> (\<lambda>d. \<lparr>hg_station = s, hg_day_date = d,
                      hg_rn = int (card {e \<in> hot_dates T s. e \<le> d}),
                      hg_grp_id = grp_of (hot_dates T s) d\<rparr>) ` hot_dates T s"
    by (simp only: hot_grouped_station [OF assms] set_map ds)
  finally show ?thesis by (simp only: image_iff)
qed

lemma heatwave_groups_mem:
  "k \<in> set (heatwave_groups G) \<longleftrightarrow>
     k \<in> hg_key ` set G \<and> 3 \<le> length (filter (\<lambda>g. hg_key g = k) G)"
  by (auto simp: heatwave_groups_def)

lemma heatwave_days_set:
  "set (heatwave_days G WG) =
     (\<Union>h \<in> set G. (\<lambda>k. (hg_station h, hg_day_date h)) `
                       {k \<in> set WG. hg_station h = fst k \<and> hg_grp_id h = snd k})"
  unfolding heatwave_days_def set_concat set_map set_filter image_image ..

lemma heatwave_days_mem:
  "w \<in> set (heatwave_days G WG) \<longleftrightarrow>
     (\<exists>g \<in> set G. w = (hg_station g, hg_day_date g) \<and> (hg_station g, hg_grp_id g) \<in> set WG)"
proof
  assume "w \<in> set (heatwave_days G WG)"
  then obtain h where h: "h \<in> set G"
      and im: "w \<in> (\<lambda>k. (hg_station h, hg_day_date h)) `
                       {k \<in> set WG. hg_station h = fst k \<and> hg_grp_id h = snd k}"
    unfolding heatwave_days_set by (rule UN_E)
  from im obtain k where k: "k \<in> {k \<in> set WG. hg_station h = fst k \<and> hg_grp_id h = snd k}"
      and w: "w = (hg_station h, hg_day_date h)"
    by (rule imageE)
  from k have "k \<in> set WG" "hg_station h = fst k" "hg_grp_id h = snd k" by simp_all
  then have "(hg_station h, hg_grp_id h) \<in> set WG" by simp
  with h w show "\<exists>g \<in> set G. w = (hg_station g, hg_day_date g) \<and> (hg_station g, hg_grp_id g) \<in> set WG"
    by (intro bexI [of _ h] conjI)
next
  assume "\<exists>g \<in> set G. w = (hg_station g, hg_day_date g) \<and> (hg_station g, hg_grp_id g) \<in> set WG"
  then obtain g where g: "g \<in> set G" "w = (hg_station g, hg_day_date g)"
      "(hg_station g, hg_grp_id g) \<in> set WG"
    by (elim bexE conjE)
  from g(3) have "(hg_station g, hg_grp_id g)
      \<in> {k \<in> set WG. hg_station g = fst k \<and> hg_grp_id g = snd k}"
    by simp
  then have "(\<lambda>k. (hg_station g, hg_day_date g)) (hg_station g, hg_grp_id g)
      \<in> (\<lambda>k. (hg_station g, hg_day_date g)) ` {k \<in> set WG. hg_station g = fst k \<and> hg_grp_id g = snd k}"
    by (rule imageI)
  with g(2) have "w \<in> (\<lambda>k. (hg_station g, hg_day_date g)) `
                         {k \<in> set WG. hg_station g = fst k \<and> hg_grp_id g = snd k}"
    by (simp only:)
  with g(1) show "w \<in> set (heatwave_days G WG)"
    unfolding heatwave_days_set by (rule UN_I)
qed

lemma heatwave_days_of_run:
  assumes one: "one_row_per_day T"
    and run: "{a ..< a + int n} \<subseteq> hot_dates T s"
    and before: "a - 1 \<notin> hot_dates T s" and after: "a + int n \<notin> hot_dates T s"
    and d: "a \<le> d" "d < a + int n"
  shows "(s, d) \<in> set (heatwave_days (hot_grouped (hot_days (base T)))
                         (heatwave_groups (hot_grouped (hot_days (base T))))) \<longleftrightarrow> 3 \<le> n"
proof -
  let ?G = "hot_grouped (hot_days (base T))"
  let ?D = "hot_dates T s"
  let ?g = "\<lparr>hg_station = s, hg_day_date = d,
             hg_rn = int (card {e \<in> ?D. e \<le> d}), hg_grp_id = grp_of ?D d\<rparr>"
  from run d have dD: "d \<in> ?D" by auto
  have cnt: "length (filter (\<lambda>g. hg_key g = (s, grp_of ?D d)) ?G) = n"
    using hot_grouped_count [OF one, of s "grp_of ?D d"]
          grp_of_run_count [OF hot_dates_finite run before after d]
    by simp
  from dD have gin: "?g \<in> set ?G"
    using hot_grouped_mem [OF one, of ?g s] by auto
  show ?thesis
  proof
    assume "(s, d) \<in> set (heatwave_days ?G (heatwave_groups ?G))"
    then obtain g where g: "g \<in> set ?G" "hg_station g = s" "hg_day_date g = d"
        "(hg_station g, hg_grp_id g) \<in> set (heatwave_groups ?G)"
      by (auto simp: heatwave_days_mem)
    from g(1,2) obtain d' where "g = \<lparr>hg_station = s, hg_day_date = d',
             hg_rn = int (card {e \<in> ?D. e \<le> d'}), hg_grp_id = grp_of ?D d'\<rparr>"
      using hot_grouped_mem [OF one, of g s] by auto
    with g(3) have "hg_grp_id g = grp_of ?D d" by auto
    with g(2,4) have "(s, grp_of ?D d) \<in> set (heatwave_groups ?G)" by simp
    then have "3 \<le> length (filter (\<lambda>g. hg_key g = (s, grp_of ?D d)) ?G)"
      by (simp only: heatwave_groups_mem)
    with cnt show "3 \<le> n" by simp
  next
    assume "3 \<le> n"
    with cnt have "3 \<le> length (filter (\<lambda>g. hg_key g = (s, grp_of ?D d)) ?G)" by simp
    moreover from gin have "hg_key ?g \<in> hg_key ` set ?G" by (rule imageI)
    then have "(s, grp_of ?D d) \<in> hg_key ` set ?G" by (simp add: hg_key_def)
    ultimately have "(s, grp_of ?D d) \<in> set (heatwave_groups ?G)"
      by (simp only: heatwave_groups_mem)
    with gin show "(s, d) \<in> set (heatwave_days ?G (heatwave_groups ?G))"
      by (auto simp: heatwave_days_mem intro!: bexI [of _ ?g])
  qed
qed

lemma flags_mem:
  "r \<in> set (build_noaa_heatwave_flags T) \<longleftrightarrow>
     (\<exists>b m. (b, m) \<in> set (left_join (\<lambda>b w. b_station b = fst w \<and> cast_date (b_day_utc b) = snd w)
                 (base T)
                 (heatwave_days (hot_grouped (hot_days (base T)))
                    (heatwave_groups (hot_grouped (hot_days (base T))))))
            \<and> r = flag_row (b, m))"
  by (auto simp: build_noaa_heatwave_flags_def Let_def)

lemma maximal_hot_run_dates:
  assumes "maximal_hot_run T s a n"
  shows "{a ..< a + int n} \<subseteq> hot_dates T s" "a - 1 \<notin> hot_dates T s" "a + int n \<notin> hot_dates T s"
proof -
  from assms have all: "\<forall>d \<in> set [a .. a + int n - 1]. hot_on T s d"
    and b: "\<not> hot_on T s (a - 1)" and c: "\<not> hot_on T s (a + int n)"
    by (simp_all add: maximal_hot_run_def list_all_iff)
  from all show "{a ..< a + int n} \<subseteq> hot_dates T s"
    by (auto simp: hot_dates_def)
  from b show "a - 1 \<notin> hot_dates T s" by (simp add: hot_dates_def)
  from c show "a + int n \<notin> hot_dates T s" by (simp add: hot_dates_def)
qed

lemma heatwave_flag_of_run:
  assumes one: "one_row_per_day T" and run: "maximal_hot_run T s a n"
    and d: "a \<le> d" "d < a + int n"
  shows "(\<exists>r \<in> set (build_noaa_heatwave_flags T). station r = s \<and> cast_date (day_utc r) = d)
       \<and> (\<forall>r \<in> set (build_noaa_heatwave_flags T). station r = s \<and> cast_date (day_utc r) = d
             \<longrightarrow> is_heatwave_day r = (if 3 \<le> n then 1 else 0))"
proof -
  let ?c = "\<lambda>b w. b_station b = fst w \<and> cast_date (b_day_utc b) = snd w"
  let ?HD = "heatwave_days (hot_grouped (hot_days (base T)))
                    (heatwave_groups (hot_grouped (hot_days (base T))))"
  note rd = maximal_hot_run_dates [OF run]
  have hw: "(s, d) \<in> set ?HD \<longleftrightarrow> 3 \<le> n"
    by (rule heatwave_days_of_run [OF one rd d])
  have ex: "\<exists>r \<in> set (build_noaa_heatwave_flags T). station r = s \<and> cast_date (day_utc r) = d"
  proof -
    from rd(1) d have "d \<in> hot_dates T s" by auto
    then obtain t where t: "t \<in> set T" "station t = s" "cast_date (day_utc t) = d"
      by (auto simp: hot_dates_def hot_on_def)
    let ?b = "\<lparr>b_station = station t, b_day_utc = day_utc t,
               b_daily_max_temp_C = daily_max_temp_C t, b_avg_temp_C = avg_temp_C t,
               b_is_hot_day = case_when (sql_ge (daily_max_temp_C t) 32.22) 1 0,
               b_day_date = cast_date (day_utc t)\<rparr>"
    from t(1) have b: "?b \<in> set (base T)" by (auto simp only: base_mem)
    have "\<exists>m. (?b, m) \<in> set (left_join ?c (base T) ?HD)"
    proof (cases "\<forall>w \<in> set ?HD. \<not> ?c ?b w")
      case True
      with b have "(?b, None) \<in> set (left_join ?c (base T) ?HD)"
        by (simp add: left_join_None_iff)
      then show ?thesis ..
    next
      case False
      then obtain w where "w \<in> set ?HD" "?c ?b w" by blast
      with b have "(?b, Some w) \<in> set (left_join ?c (base T) ?HD)"
        by (simp add: left_join_Some_iff)
      then show ?thesis ..
    qed
    then obtain m where "(?b, m) \<in> set (left_join ?c (base T) ?HD)" ..
    then have "flag_row (?b, m) \<in> set (build_noaa_heatwave_flags T)"
      by (auto simp only: flags_mem)
    moreover from t have "station (flag_row (?b, m)) = s \<and> cast_date (day_utc (flag_row (?b, m))) = d"
      by (simp add: flag_row_def)
    ultimately show ?thesis by blast
  qed
  have al: "\<forall>r \<in> set (build_noaa_heatwave_flags T). station r = s \<and> cast_date (day_utc r) = d
             \<longrightarrow> is_heatwave_day r = (if 3 \<le> n then 1 else 0)"
  proof (intro ballI impI)
    fix r assume r: "r \<in> set (build_noaa_heatwave_flags T)"
      and k: "station r = s \<and> cast_date (day_utc r) = d"
    from r obtain b m where bm: "(b, m) \<in> set (left_join ?c (base T) ?HD)" and rr: "r = flag_row (b, m)"
      by (auto simp only: flags_mem)
    from rr k have bk: "b_station b = s" "cast_date (b_day_utc b) = d"
      by (simp_all add: flag_row_def)
    show "is_heatwave_day r = (if 3 \<le> n then 1 else 0)"
    proof (cases m)
      case None
      with bm have "\<forall>w \<in> set ?HD. \<not> ?c b w" by (simp add: left_join_None_iff)
      with bk have "(s, d) \<notin> set ?HD" by auto
      with hw have "\<not> 3 \<le> n" by simp
      with None rr show ?thesis by (simp add: flag_row_def)
    next
      case (Some w)
      with bm have "w \<in> set ?HD" "?c b w" by (simp_all only: left_join_Some_iff)
      with bk have "(s, d) \<in> set ?HD" by (cases w) auto
      with hw have "3 \<le> n" by simp
      with Some rr show ?thesis by (simp add: flag_row_def)
    qed
  qed
  from ex al show ?thesis ..
qed

section \<open>Runs of two, three and five hot days\<close>

lemma heatwave_flags_of_run:
  assumes "one_row_per_day T" and "maximal_hot_run T s a n"
  shows "\<forall>d \<in> {a .. a + int n - 1}.
           (\<exists>r \<in> set (build_noaa_heatwave_flags T). station r = s \<and> cast_date (day_utc r) = d)
         \<and> (\<forall>r \<in> set (build_noaa_heatwave_flags T). station r = s \<and> cast_date (day_utc r) = d
               \<longrightarrow> is_heatwave_day r = (if 3 \<le> n then 1 else 0))"
proof
  fix d assume "d \<in> {a .. a + int n - 1}"
  then have "a \<le> d" "d < a + int n" by simp_all
  then show "(\<exists>r \<in> set (build_noaa_heatwave_flags T). station r = s \<and> cast_date (day_utc r) = d)
         \<and> (\<forall>r \<in> set (build_noaa_heatwave_flags T). station r = s \<and> cast_date (day_utc r) = d
               \<longrightarrow> is_heatwave_day r = (if 3 \<le> n then 1 else 0))"
    by (rule heatwave_flag_of_run [OF assms])
qed

text \<open>Every table that \<open>build_noaa_daily\<close> builds has one row for a station and day.\<close>

lemma cast_date_trunc: "cast_date (date_trunc_day ts) = cast_date ts"
  by (simp add: cast_date_def date_trunc_day_def)

lemma build_noaa_daily_one_row_per_day: "one_row_per_day (build_noaa_daily H)"
proof -
  let ?f = "\<lambda>k :: string \<times> timestamp. (fst k, cast_date (snd k))"
  have keys: "map (\<lambda>r. (station r, cast_date (day_utc r))) (build_noaa_daily H)
              = map ?f (group_keys hourly_day_key H)"
    by (simp add: build_noaa_daily_def comp_def)
  have "inj_on ?f (set (group_keys hourly_day_key H))"
  proof (rule inj_onI)
    fix x y
    assume "x \<in> set (group_keys hourly_day_key H)" and "y \<in> set (group_keys hourly_day_key H)"
      and e: "?f x = ?f y"
    then obtain p q where x: "x = hourly_day_key p" and y: "y = hourly_day_key q"
      by (auto simp: group_keys_set)
    from e x y have "h_station p = h_station q"
      and "cast_date (date_trunc_day (h_hour_utc p)) = cast_date (date_trunc_day (h_hour_utc q))"
      by (simp_all add: hourly_day_key_def)
    then have "h_station p = h_station q" and "date_trunc_day (h_hour_utc p) = date_trunc_day (h_hour_utc q)"
      by (simp_all add: cast_date_trunc date_trunc_day_eq_iff)
    with x y show "x = y" by (simp add: hourly_day_key_def)
  qed
  with group_keys_distinct [of hourly_day_key H]
  have "distinct (map ?f (group_keys hourly_day_key H))" by (simp only: distinct_map)
  with keys show ?thesis by (simp only: one_row_per_day_def)
qed

text \<open>
  C2.  In a daily table with one row for a station and day at most (as
  \<open>build_noaa_daily\<close> builds it), let the days from \<open>a\<close> on be a maximal run of hot
  days of station \<open>s\<close>.  If the run has exactly 2 days, each of them has a row and all
  its rows have heatwave flag 0; if it has exactly 3 days, each has a row and all have
  flag 1; if it has exactly 5 days, each of the 5 has a row and all have flag 1.
\<close>

theorem run_boundaries:
  assumes "one_row_per_day T"
  shows "(maximal_hot_run T s a 2 \<longrightarrow>
            (\<forall>d \<in> {a .. a + 1}.
               (\<exists>r \<in> set (build_noaa_heatwave_flags T). station r = s \<and> cast_date (day_utc r) = d)
             \<and> (\<forall>r \<in> set (build_noaa_heatwave_flags T).
                    station r = s \<and> cast_date (day_utc r) = d \<longrightarrow> is_heatwave_day r = 0)))
       \<and> (maximal_hot_run T s a 3 \<longrightarrow>
            (\<forall>d \<in> {a .. a + 2}.
               (\<exists>r \<in> set (build_noaa_heatwave_flags T). station r = s \<and> cast_date (day_utc r) = d)
             \<and> (\<forall>r \<in> set (build_noaa_heatwave_flags T).
                    station r = s \<and> cast_date (day_utc r) = d \<longrightarrow> is_heatwave_day r = 1)))
       \<and> (maximal_hot_run T s a 5 \<longrightarrow>
            (\<forall>d \<in> {a .. a + 4}.
               (\<exists>r \<in> set (build_noaa_heatwave_flags T). station r = s \<and> cast_date (day_utc r) = d)
             \<and> (\<forall>r \<in> set (build_noaa_heatwave_flags T).
                    station r = s \<and> cast_date (day_utc r) = d \<longrightarrow> is_heatwave_day r = 1)))"
proof -
  have two: "maximal_hot_run T s a 2 \<longrightarrow>
            (\<forall>d \<in> {a .. a + 1}.
               (\<exists>r \<in> set (build_noaa_heatwave_flags T). station r = s \<and> cast_date (day_utc r) = d)
             \<and> (\<forall>r \<in> set (build_noaa_heatwave_flags T).
                    station r = s \<and> cast_date (day_utc r) = d \<longrightarrow> is_heatwave_day r = 0))"
  proof
    assume r: "maximal_hot_run T s a 2"
    have e: "a + int 2 - 1 = a + 1" by simp
    have c: "(if 3 \<le> (2::nat) then (1::int) else 0) = 0" by simp
    from heatwave_flags_of_run [OF assms r]
    show "\<forall>d \<in> {a .. a + 1}.
               (\<exists>r \<in> set (build_noaa_heatwave_flags T). station r = s \<and> cast_date (day_utc r) = d)
             \<and> (\<forall>r \<in> set (build_noaa_heatwave_flags T).
                    station r = s \<and> cast_date (day_utc r) = d \<longrightarrow> is_heatwave_day r = 0)"
      unfolding e c .
  qed
  have three: "maximal_hot_run T s a 3 \<longrightarrow>
            (\<forall>d \<in> {a .. a + 2}.
               (\<exists>r \<in> set (build_noaa_heatwave_flags T). station r = s \<and> cast_date (day_utc r) = d)
             \<and> (\<forall>r \<in> set (build_noaa_heatwave_flags T).
                    station r = s \<and> cast_date (day_utc r) = d \<longrightarrow> is_heatwave_day r = 1))"
  proof
    assume r: "maximal_hot_run T s a 3"
    have e: "a + int 3 - 1 = a + 2" by simp
    have c: "(if 3 \<le> (3::nat) then (1::int) else 0) = 1" by simp
    from heatwave_flags_of_run [OF assms r]
    show "\<forall>d \<in> {a .. a + 2}.
               (\<exists>r \<in> set (build_noaa_heatwave_flags T). station r = s \<and> cast_date (day_utc r) = d)
             \<and> (\<forall>r \<in> set (build_noaa_heatwave_flags T).
                    station r = s \<and> cast_date (day_utc r) = d \<longrightarrow> is_heatwave_day r = 1)"
      unfolding e c .
  qed
  have five: "maximal_hot_run T s a 5 \<longrightarrow>
            (\<forall>d \<in> {a .. a + 4}.
               (\<exists>r \<in> set (build_noaa_heatwave_flags T). station r = s \<and> cast_date (day_utc r) = d)
             \<and> (\<forall>r \<in> set (build_noaa_heatwave_flags T).
                    station r = s \<and> cast_date (day_utc r) = d \<longrightarrow> is_heatwave_day r = 1))"
  proof
    assume r: "maximal_hot_run T s a 5"
    have e: "a + int 5 - 1 = a + 4" by simp
    have c: "(if 3 \<le> (5::nat) then (1::int) else 0) = 1" by simp
    from heatwave_flags_of_run [OF assms r]
    show "\<forall>d \<in> {a .. a + 4}.
               (\<exists>r \<in> set (build_noaa_heatwave_flags T). station r = s \<and> cast_date (day_utc r) = d)
             \<and> (\<forall>r \<in> set (build_noaa_heatwave_flags T).
                    station r = s \<and> cast_date (day_utc r) = d \<longrightarrow> is_heatwave_day r = 1)"
      unfolding e c .
  qed
  from two three five show ?thesis by (intro conjI)
qed

theorem run_boundaries_witness:
  "one_row_per_day
     (daily_rows ''X'' 19905
        [(Some 33, None), (Some 33, None), (Some 20, None), (Some 35, None), (Some 35, None),
         (Some 35, None), (None, None), (Some 36, None), (Some 36, None), (Some 36, None),
         (Some 36, None), (Some 36, None), (Some 20, None)]
      @ daily_rows ''Y'' 19907 [(Some 40, None)])
   \<and> maximal_hot_run
     (daily_rows ''X'' 19905
        [(Some 33, None), (Some 33, None), (Some 20, None), (Some 35, None), (Some 35, None),
         (Some 35, None), (None, None), (Some 36, None), (Some 36, None), (Some 36, None),
         (Some 36, None), (Some 36, None), (Some 20, None)]
      @ daily_rows ''Y'' 19907 [(Some 40, None)]) ''X'' 19905 2
   \<and> maximal_hot_run
     (daily_rows ''X'' 19905
        [(Some 33, None), (Some 33, None), (Some 20, None), (Some 35, None), (Some 35, None),
         (Some 35, None), (None, None), (Some 36, None), (Some 36, None), (Some 36, None),
         (Some 36, None), (Some 36, None), (Some 20, None)]
      @ daily_rows ''Y'' 19907 [(Some 40, None)]) ''X'' 19908 3
   \<and> maximal_hot_run
     (daily_rows ''X'' 19905
        [(Some 33, None), (Some 33, None), (Some 20, None), (Some 35, None), (Some 35, None),
         (Some 35, None), (None, None), (Some 36, None), (Some 36, None), (Some 36, None),
         (Some 36, None), (Some 36, None), (Some 20, None)]
      @ daily_rows ''Y'' 19907 [(Some 40, None)]) ''X'' 19912 5
   \<and> list_all (\<lambda>r. is_heatwave_day r = 0)
        (filter (\<lambda>r. station r = ''X'' \<and> cast_date (day_utc r) = 19906)
           (build_noaa_heatwave_flags
     (daily_rows ''X'' 19905
        [(Some 33, None), (Some 33, None), (Some 20, None), (Some 35, None), (Some 35, None),
         (Some 35, None), (None, None), (Some 36, None), (Some 36, None), (Some 36, None),
         (Some 36, None), (Some 36, None), (Some 20, None)]
      @ daily_rows ''Y'' 19907 [(Some 40, None)])))
   \<and> list_all (\<lambda>r. is_heatwave_day r = 1)
        (filter (\<lambda>r. station r = ''X'' \<and> cast_date (day_utc r) = 19909)
           (build_noaa_heatwave_flags
     (daily_rows ''X'' 19905
        [(Some 33, None), (Some 33, None), (Some 20, None), (Some 35, None), (Some 35, None),
         (Some 35, None), (None, None), (Some 36, None), (Some 36, None), (Some 36, None),
         (Some 36, None), (Some 36, None), (Some 20, None)]
      @ daily_rows ''Y'' 19907 [(Some 40, None)])))
   \<and> list_all (\<lambda>r. is_heatwave_day r = 1)
        (filter (\<lambda>r. station r = ''X'' \<and> cast_date (day_utc r) = 19914)
           (build_noaa_heatwave_flags
     (daily_rows ''X'' 19905
        [(Some 33, None), (Some 33, None), (Some 20, None), (Some 35, None), (Some 35, None),
         (Some 35, None), (None, None), (Some 36, None), (Some 36, None), (Some 36, None),
         (Some 36, None), (Some 36, None), (Some 20, None)]
      @ daily_rows ''Y'' 19907 [(Some 40, None)])))"
proof -
  let ?W = "daily_rows ''X'' 19905
        [(Some 33, None), (Some 33, None), (Some 20, None), (Some 35, None), (Some 35, None),
         (Some 35, None), (None, None), (Some 36, None), (Some 36, None), (Some 36, None),
         (Some 36, None), (Some 36, None), (Some 20, None)]
      @ daily_rows ''Y'' 19907 [(Some 40, None)]"
  have one: "one_row_per_day ?W" by code_simp
  have r2: "maximal_hot_run ?W ''X'' 19905 2" by code_simp
  have r3: "maximal_hot_run ?W ''X'' 19908 3" by code_simp
  have r5: "maximal_hot_run ?W ''X'' 19912 5" by code_simp
  note t2 = run_boundaries [OF one, of "''X''" 19905]
  note t3 = run_boundaries [OF one, of "''X''" 19908]
  note t5 = run_boundaries [OF one, of "''X''" 19912]
  have "(19906::int) \<in> {19905 .. 19905 + 1}" by simp
  with t2 r2 have "\<forall>r \<in> set (build_noaa_heatwave_flags ?W).
       station r = ''X'' \<and> cast_date (day_utc r) = 19906 \<longrightarrow> is_heatwave_day r = 0"
    by blast
  then have a: "list_all (\<lambda>r. is_heatwave_day r = 0)
        (filter (\<lambda>r. station r = ''X'' \<and> cast_date (day_utc r) = 19906) (build_noaa_heatwave_flags ?W))"
    by (simp add: list_all_iff)
  have "(19909::int) \<in> {19908 .. 19908 + 2}" by simp
  with t3 r3 have "\<forall>r \<in> set (build_noaa_heatwave_flags ?W).
       station r = ''X'' \<and> cast_date (day_utc r) = 19909 \<longrightarrow> is_heatwave_day r = 1"
    by blast
  then have b: "list_all (\<lambda>r. is_heatwave_day r = 1)
        (filter (\<lambda>r. station r = ''X'' \<and> cast_date (day_utc r) = 19909) (build_noaa_heatwave_flags ?W))"
    by (simp add: list_all_iff)
  have "(19914::int) \<in> {19912 .. 19912 + 4}" by simp
  with t5 r5 have "\<forall>r \<in> set (build_noaa_heatwave_flags ?W).
       station r = ''X'' \<and> cast_date (day_utc r) = 19914 \<longrightarrow> is_heatwave_day r = 1"
    by blast
  then have c: "list_all (\<lambda>r. is_heatwave_day r = 1)
        (filter (\<lambda>r. station r = ''X'' \<and> cast_date (day_utc r) = 19914) (build_noaa_heatwave_flags ?W))"
    by (simp add: list_all_iff)
  from one r2 r3 r5 a b c show ?thesis by (intro conjI)
qed

section \<open>Days with no daily maximum\<close>

text \<open>A day with a NULL maximum is not a hot day, and bounds a run of hot days.\<close>

lemma null_not_hot:
  assumes one: "one_row_per_day T" and nul: "null_on T s d"
  shows "\<not> hot_on T s d"
proof
  assume "hot_on T s d"
  then obtain h where h: "h \<in> set T" "station h = s" "cast_date (day_utc h) = d"
      "sql_ge (daily_max_temp_C h) 32.22 = Some True"
    by (auto simp only: hot_on_def)
  from nul obtain r where r: "r \<in> set T" "station r = s" "cast_date (day_utc r) = d"
      "daily_max_temp_C r = None"
    by (auto simp only: null_on_def)
  from one have "inj_on (\<lambda>r. (station r, cast_date (day_utc r))) (set T)"
    by (simp only: one_row_per_day_def distinct_map)
  moreover from h r have "(station h, cast_date (day_utc h)) = (station r, cast_date (day_utc r))"
    by simp
  ultimately have "h = r" using h(1) r(1) by (rule inj_onD)
  with h(4) r(4) show False by (simp add: sql_ge_def)
qed

lemma null_day_no_heatwave:
  assumes one: "one_row_per_day T"
    and r: "r \<in> set (build_noaa_heatwave_flags T)" and n: "daily_max_temp_C r = None"
  shows "is_heatwave_day r = 0"
proof -
  let ?c = "\<lambda>b w. b_station b = fst w \<and> cast_date (b_day_utc b) = snd w"
  let ?G = "hot_grouped (hot_days (base T))"
  let ?HD = "heatwave_days ?G (heatwave_groups ?G)"
  from r obtain b m where bm: "(b, m) \<in> set (left_join ?c (base T) ?HD)" and rr: "r = flag_row (b, m)"
    by (auto simp only: flags_mem)
  from bm have "b \<in> set (base T)" by (auto dest: left_join_fst)
  then obtain t where t: "t \<in> set T"
    and bt: "b = \<lparr>b_station = station t, b_day_utc = day_utc t,
               b_daily_max_temp_C = daily_max_temp_C t, b_avg_temp_C = avg_temp_C t,
               b_is_hot_day = case_when (sql_ge (daily_max_temp_C t) 32.22) 1 0,
               b_day_date = cast_date (day_utc t)\<rparr>"
    by (auto simp only: base_mem)
  from rr n bt have "daily_max_temp_C t = None" by (simp add: flag_row_def)
  with t have nul: "null_on T (station t) (cast_date (day_utc t))"
    by (auto simp only: null_on_def)
  have "m = None"
  proof (rule ccontr)
    assume "m \<noteq> None"
    then obtain w where m: "m = Some w" by auto
    with bm have w: "w \<in> set ?HD" "?c b w" by (simp_all only: left_join_Some_iff)
    from w(2) bt have "w = (station t, cast_date (day_utc t))" by (cases w) simp
    with w(1) obtain g where g: "g \<in> set ?G" "hg_station g = station t"
        "hg_day_date g = cast_date (day_utc t)"
      by (auto simp only: heatwave_days_mem)
    from g(1,2) obtain d where "d \<in> hot_dates T (station t)" "hg_day_date g = d"
      using hot_grouped_mem [OF one, of g "station t"] by auto
    with g(3) have "hot_on T (station t) (cast_date (day_utc t))" by (simp add: hot_dates_def)
    with null_not_hot [OF one nul] show False by simp
  qed
  with rr show ?thesis by (simp add: flag_row_def)
qed

lemma null_bounded_run:
  assumes one: "one_row_per_day T"
    and run: "list_all (hot_on T s) [a .. a + int n - 1]"
    and before: "null_on T s (a - 1) \<or> \<not> hot_on T s (a - 1)"
    and after: "null_on T s (a + int n) \<or> \<not> hot_on T s (a + int n)"
  shows "maximal_hot_run T s a n"
proof -
  from before null_not_hot [OF one] have "\<not> hot_on T s (a - 1)" by blast
  moreover from after null_not_hot [OF one] have "\<not> hot_on T s (a + int n)" by blast
  ultimately show ?thesis using run by (simp only: maximal_hot_run_def simp_thms)
qed

text \<open>
  C3.  A row whose daily maximum is NULL is never flagged hot, whatever the table, and in
  a table with one row for a station and day it is never a heatwave day.  It ends a run
  as a day that is not hot does: when the \<open>n\<close> days from \<open>a\<close> on are hot and the day
  before and the day after each have a NULL maximum or are not hot, every day of the run
  has a row and all its rows have heatwave flag 1 if \<open>n\<close> is at least 3 and flag 0
  otherwise.  In the scenario of C1 with the maximum of 07-03 missing, the hot days are
  07-02 and 07-04 only (days 19906 and 19908, not consecutive), and no day is a heatwave
  day.
\<close>

theorem null_day_breaks_run:
  "(\<forall>r \<in> set (build_noaa_heatwave_flags T). daily_max_temp_C r = None \<longrightarrow> is_hot_day r = 0)
   \<and> (one_row_per_day T \<longrightarrow>
        (\<forall>r \<in> set (build_noaa_heatwave_flags T). daily_max_temp_C r = None \<longrightarrow> is_heatwave_day r = 0))
   \<and> (one_row_per_day T \<and> list_all (hot_on T s) [a .. a + int n - 1]
        \<and> (null_on T s (a - 1) \<or> \<not> hot_on T s (a - 1))
        \<and> (null_on T s (a + int n) \<or> \<not> hot_on T s (a + int n)) \<longrightarrow>
        (\<forall>d \<in> {a .. a + int n - 1}.
           (\<exists>r \<in> set (build_noaa_heatwave_flags T). station r = s \<and> cast_date (day_utc r) = d)
         \<and> (\<forall>r \<in> set (build_noaa_heatwave_flags T). station r = s \<and> cast_date (day_utc r) = d
               \<longrightarrow> is_heatwave_day r = (if 3 \<le> n then 1 else 0))))
   \<and> map is_hot_day (build_noaa_heatwave_flags
        (daily_rows ''X'' 19905
           [(Some 30, a0), (Some 33, a1), (None, a2), (Some 35, a3), (Some 31, a4), (Some 20, a5)]))
       = [0, 1, 0, 1, 0, 0]
   \<and> map hg_day_date (hot_grouped (hot_days (base
        (daily_rows ''X'' 19905
           [(Some 30, a0), (Some 33, a1), (None, a2), (Some 35, a3), (Some 31, a4), (Some 20, a5)]))))
       = [19906, 19908]
   \<and> map is_heatwave_day (build_noaa_heatwave_flags
        (daily_rows ''X'' 19905
           [(Some 30, a0), (Some 33, a1), (None, a2), (Some 35, a3), (Some 31, a4), (Some 20, a5)]))
       = [0, 0, 0, 0, 0, 0]"
proof -
  have g: "\<forall>r \<in> set (build_noaa_heatwave_flags T). daily_max_temp_C r = None \<longrightarrow> is_hot_day r = 0"
  proof (intro ballI impI)
    fix r assume "r \<in> set (build_noaa_heatwave_flags T)" and n: "daily_max_temp_C r = None"
    from flags_rows [OF this(1)] n show "is_hot_day r = 0"
      by (auto simp: case_when_def sql_ge_def)
  qed
  have b: "one_row_per_day T \<longrightarrow>
        (\<forall>r \<in> set (build_noaa_heatwave_flags T). daily_max_temp_C r = None \<longrightarrow> is_heatwave_day r = 0)"
    by (intro impI ballI) (rule null_day_no_heatwave)
  have c: "one_row_per_day T \<and> list_all (hot_on T s) [a .. a + int n - 1]
        \<and> (null_on T s (a - 1) \<or> \<not> hot_on T s (a - 1))
        \<and> (null_on T s (a + int n) \<or> \<not> hot_on T s (a + int n)) \<longrightarrow>
        (\<forall>d \<in> {a .. a + int n - 1}.
           (\<exists>r \<in> set (build_noaa_heatwave_flags T). station r = s \<and> cast_date (day_utc r) = d)
         \<and> (\<forall>r \<in> set (build_noaa_heatwave_flags T). station r = s \<and> cast_date (day_utc r) = d
               \<longrightarrow> is_heatwave_day r = (if 3 \<le> n then 1 else 0)))"
  proof
    assume k: "one_row_per_day T \<and> list_all (hot_on T s) [a .. a + int n - 1]
        \<and> (null_on T s (a - 1) \<or> \<not> hot_on T s (a - 1))
        \<and> (null_on T s (a + int n) \<or> \<not> hot_on T s (a + int n))"
    then have one: "one_row_per_day T" by (rule conjunct1)
    from k have "maximal_hot_run T s a n" by (intro null_bounded_run) simp_all
    with one show "(\<forall>d \<in> {a .. a + int n - 1}.
           (\<exists>r \<in> set (build_noaa_heatwave_flags T). station r = s \<and> cast_date (day_utc r) = d)
         \<and> (\<forall>r \<in> set (build_noaa_heatwave_flags T). station r = s \<and> cast_date (day_utc r) = d
               \<longrightarrow> is_heatwave_day r = (if 3 \<le> n then 1 else 0)))"
      by (rule heatwave_flags_of_run)
  qed
  have h: "map is_hot_day (build_noaa_heatwave_flags
        (daily_rows ''X'' 19905
           [(Some 30, a0), (Some 33, a1), (None, a2), (Some 35, a3), (Some 31, a4), (Some 20, a5)]))
       = [0, 1, 0, 1, 0, 0]"
    by code_simp
  have d: "map hg_day_date (hot_grouped (hot_days (base
        (daily_rows ''X'' 19905
           [(Some 30, a0), (Some 33, a1), (None, a2), (Some 35, a3), (Some 31, a4), (Some 20, a5)]))))
       = [19906, 19908]"
    by code_simp
  have w: "map is_heatwave_day (build_noaa_heatwave_flags
        (daily_rows ''X'' 19905
           [(Some 30, a0), (Some 33, a1), (None, a2), (Some 35, a3), (Some 31, a4), (Some 20, a5)]))
       = [0, 0, 0, 0, 0, 0]"
    by code_simp
  from g b c h d w show ?thesis by (intro conjI)
qed

theorem null_day_breaks_run_witness:
  "one_row_per_day
      (daily_rows ''X'' 19905
        [(Some 33, None), (Some 33, None), (None, None), (Some 35, None), (Some 35, None),
         (Some 35, None), (None, None), (Some 36, None)])
   \<and> list_all (hot_on
      (daily_rows ''X'' 19905
        [(Some 33, None), (Some 33, None), (None, None), (Some 35, None), (Some 35, None),
         (Some 35, None), (None, None), (Some 36, None)]) ''X'') [19905 .. 19906]
   \<and> \<not> hot_on
      (daily_rows ''X'' 19905
        [(Some 33, None), (Some 33, None), (None, None), (Some 35, None), (Some 35, None),
         (Some 35, None), (None, None), (Some 36, None)]) ''X'' 19904
   \<and> null_on
      (daily_rows ''X'' 19905
        [(Some 33, None), (Some 33, None), (None, None), (Some 35, None), (Some 35, None),
         (Some 35, None), (None, None), (Some 36, None)]) ''X'' 19907
   \<and> list_all (\<lambda>r. is_heatwave_day r = 0)
        (filter (\<lambda>r. station r = ''X'' \<and> cast_date (day_utc r) = 19906)
           (build_noaa_heatwave_flags
      (daily_rows ''X'' 19905
        [(Some 33, None), (Some 33, None), (None, None), (Some 35, None), (Some 35, None),
         (Some 35, None), (None, None), (Some 36, None)])))
   \<and> list_all (hot_on
      (daily_rows ''X'' 19905
        [(Some 33, None), (Some 33, None), (None, None), (Some 35, None), (Some 35, None),
         (Some 35, None), (None, None), (Some 36, None)]) ''X'') [19908 .. 19910]
   \<and> null_on
      (daily_rows ''X'' 19905
        [(Some 33, None), (Some 33, None), (None, None), (Some 35, None), (Some 35, None),
         (Some 35, None), (None, None), (Some 36, None)]) ''X'' 19911
   \<and> list_all (\<lambda>r. is_heatwave_day r = 1)
        (filter (\<lambda>r. station r = ''X'' \<and> cast_date (day_utc r) = 19909)
           (build_noaa_heatwave_flags
      (daily_rows ''X'' 19905
        [(Some 33, None), (Some 33, None), (None, None), (Some 35, None), (Some 35, None),
         (Some 35, None), (None, None), (Some 36, None)])))
   \<and> (build_noaa_heatwave_flags
      (daily_rows ''X'' 19905
        [(Some 33, None), (Some 33, None), (None, None), (Some 35, None), (Some 35, None),
         (Some 35, None), (None, None), (Some 36, None)])) ! 2
       \<in> set (build_noaa_heatwave_flags
      (daily_rows ''X'' 19905
        [(Some 33, None), (Some 33, None), (None, None), (Some 35, None), (Some 35, None),
         (Some 35, None), (None, None), (Some 36, None)]))
   \<and> daily_max_temp_C ((build_noaa_heatwave_flags
      (daily_rows ''X'' 19905
        [(Some 33, None), (Some 33, None), (None, None), (Some 35, None), (Some 35, None),
         (Some 35, None), (None, None), (Some 36, None)])) ! 2) = None
   \<and> is_hot_day ((build_noaa_heatwave_flags
      (daily_rows ''X'' 19905
        [(Some 33, None), (Some 33, None), (None, None), (Some 35, None), (Some 35, None),
         (Some 35, None), (None, None), (Some 36, None)])) ! 2) = 0
   \<and> is_heatwave_day ((build_noaa_heatwave_flags
      (daily_rows ''X'' 19905
        [(Some 33, None), (Some 33, None), (None, None), (Some 35, None), (Some 35, None),
         (Some 35, None), (None, None), (Some 36, None)])) ! 2) = 0"
proof -
  let ?T = "(daily_rows ''X'' 19905
        [(Some 33, None), (Some 33, None), (None, None), (Some 35, None), (Some 35, None),
         (Some 35, None), (None, None), (Some 36, None)])"
  let ?F = "build_noaa_heatwave_flags ?T"
  have one: "one_row_per_day ?T" by code_simp
  have h2: "list_all (hot_on ?T ''X'') [19905 .. 19906]" by code_simp
  have h3: "list_all (hot_on ?T ''X'') [19908 .. 19910]" by code_simp
  have c4: "\<not> hot_on ?T ''X'' 19904" by code_simp
  have n7: "null_on ?T ''X'' 19907" by code_simp
  have n11: "null_on ?T ''X'' 19911" by code_simp
  note t2 = null_day_breaks_run [of ?T "''X''" 19905 2]
  note t3 = null_day_breaks_run [of ?T "''X''" 19908 3]
  have h2': "list_all (hot_on ?T ''X'') [19905 .. 19905 + int 2 - 1]" using h2 by simp
  have b2: "null_on ?T ''X'' (19905 - 1) \<or> \<not> hot_on ?T ''X'' (19905 - 1)" using c4 by simp
  have a2: "null_on ?T ''X'' (19905 + int 2) \<or> \<not> hot_on ?T ''X'' (19905 + int 2)" using n7 by simp
  have m2: "(19906::int) \<in> {19905 .. 19905 + int 2 - 1}" by simp
  from t2 one h2' b2 a2 m2 have "\<forall>r \<in> set ?F.
       station r = ''X'' \<and> cast_date (day_utc r) = 19906
         \<longrightarrow> is_heatwave_day r = (if 3 \<le> (2::nat) then 1 else 0)"
    by blast
  then have a: "list_all (\<lambda>r. is_heatwave_day r = 0)
        (filter (\<lambda>r. station r = ''X'' \<and> cast_date (day_utc r) = 19906) ?F)"
    by (simp add: list_all_iff)
  have h3': "list_all (hot_on ?T ''X'') [19908 .. 19908 + int 3 - 1]" using h3 by simp
  have b3: "null_on ?T ''X'' (19908 - 1) \<or> \<not> hot_on ?T ''X'' (19908 - 1)" using n7 by simp
  have a3: "null_on ?T ''X'' (19908 + int 3) \<or> \<not> hot_on ?T ''X'' (19908 + int 3)" using n11 by simp
  have m3: "(19909::int) \<in> {19908 .. 19908 + int 3 - 1}" by simp
  from t3 one h3' b3 a3 m3 have "\<forall>r \<in> set ?F.
       station r = ''X'' \<and> cast_date (day_utc r) = 19909
         \<longrightarrow> is_heatwave_day r = (if 3 \<le> (3::nat) then 1 else 0)"
    by blast
  then have b: "list_all (\<lambda>r. is_heatwave_day r = 1)
        (filter (\<lambda>r. station r = ''X'' \<and> cast_date (day_utc r) = 19909) ?F)"
    by (simp add: list_all_iff)
  have "length ?F = 8" by code_simp
  then have m: "?F ! 2 \<in> set ?F" by simp
  have n: "daily_max_temp_C (?F ! 2) = None" by code_simp
  from t2 m n have hot: "is_hot_day (?F ! 2) = 0" by blast
  from t2 one m n have hw: "is_heatwave_day (?F ! 2) = 0" by blast
  from one h2 c4 n7 a h3 n11 b m n hot hw show ?thesis by (intro conjI)
qed

end
